theory Spec2Isabelle
  imports Main "HOL-Library.Signed_Division"
begin

section \<open>Errors\<close>

text \<open>
  A Go \<open>error\<close> value. \<open>Err m\<close> is an error handed back by a remote service or by the
  file system, \<open>ErrNoSuchVariable\<close> is \<open>component.ErrNoSuchVariable\<close>, and
  \<open>Wrapf e m\<close> is \<open>errors.Wrapf(e, ...)\<close> with the formatted message \<open>m\<close>.
  A function returning \<open>(T, error)\<close> is modelled with the sum \<open>error + T\<close>:
  \<open>Inl e\<close> is a non-nil error, \<open>Inr v\<close> is the value with a nil error.
\<close>

datatype error = Err string | ErrNoSuchVariable | Wrapf error string

text \<open>
  A Go function either returns or panics (nil pointer dereference, assignment to an
  entry of a nil map).
\<close>

datatype 'a go = Returns 'a | Panics string

section \<open>Data of the deployer\<close>

type_synonym bytes = "char list"

record DeployConfig =
  Bucket :: string

record Deployer =
  config :: DeployConfig
  roleName :: string
  roleArn :: string

text \<open>\<open>component.Source\<close>: only the application name is read.\<close>

record Source =
  App :: string

text \<open>\<open>AppInfo\<close>, the build metadata: the fields the deployer reads.\<close>

record AppInfo =
  BuildId :: string
  Runtime :: string
  AppZip :: string
  PreZip :: string
  LibZip :: string

record ConfigVar =
  Name :: string
  Value :: string

definition DefaultMemory :: int where
  "DefaultMemory = 256"

definition DefaultTimeout :: int where
  "DefaultTimeout = 60"

section \<open>Data of the remote services\<close>

text \<open>
  The request and response structures of the SDK, restricted to the fields the
  deployer writes or reads. Field names that several SDK structures share carry a
  prefix: \<open>fc_\<close> for \<open>lambda.FunctionConfiguration\<close>, \<open>ufc_\<close> for
  \<open>lambda.UpdateFunctionConfigurationInput\<close>, \<open>cfi_\<close> for
  \<open>lambda.CreateFunctionInput\<close>, \<open>plv_\<close> for \<open>lambda.PublishLayerVersionInput\<close>,
  \<open>gle_\<close> for \<open>cloudwatchlogs.GetLogEventsInput\<close>, \<open>ole_\<close> for
  \<open>cloudwatchlogs.OutputLogEvent\<close>.

  A pointer field that the deployer copies without dereferencing it is an \<open>option\<close>.
  \<open>Environment\<close>, which \<open>ConfigSet\<close> tests against nil, is an \<open>option\<close>, and so is the
  map \<open>Variables\<close> (a nil map reads as empty and panics when written). The other
  response fields, which the deployer dereferences without any test, are taken as
  present.
\<close>

record LayerVersionsListItem =
  Version :: int

record ListLayerVersionsOutput =
  LayerVersions :: "LayerVersionsListItem list"

text \<open>
  The fields read of \<open>GetLayerVersionOutput\<close> and of \<open>PublishLayerVersionOutput\<close>;
  \<open>ContentCodeSha256\<close> is \<open>Content.CodeSha256\<close>.
\<close>

record LayerVersionOutput =
  LayerArn :: string
  LayerVersionArn :: string
  ContentCodeSha256 :: string

record HeadObjectOutput =
  ETag :: string

record PublishLayerVersionInput =
  plv_Description :: string
  plv_LayerName :: string
  plv_CompatibleRuntimes :: "string list"
  plv_S3Bucket :: string
  plv_S3Key :: string

record Layer =
  Arn :: string

text \<open>\<open>lambda.Environment\<close> and \<open>lambda.EnvironmentResponse\<close>: the map \<open>Variables\<close>.\<close>

record Environment =
  Variables :: "(string \<rightharpoonup> string) option"

record FunctionConfiguration =
  fc_Layers :: "Layer list"
  fc_Environment :: "Environment option"
  fc_Handler :: "string option"
  fc_Role :: "string option"
  fc_Timeout :: "int option"
  fc_MemorySize :: "int option"
  fc_Runtime :: "string option"
  fc_CodeSha256 :: string
  fc_FunctionArn :: string

record GetFunctionOutput =
  Configuration :: FunctionConfiguration

record UpdateFunctionConfigurationInput =
  ufc_FunctionName :: string
  ufc_Layers :: "string list"
  ufc_Handler :: "string option"
  ufc_Environment :: "Environment option"
  ufc_Role :: "string option"
  ufc_Timeout :: "int option"
  ufc_MemorySize :: "int option"
  ufc_Runtime :: "string option"

record CreateFunctionInput =
  cfi_Description :: string
  cfi_FunctionName :: string
  cfi_Handler :: string
  cfi_Role :: string
  cfi_Runtime :: string
  cfi_Layers :: "string list"
  cfi_Timeout :: int
  cfi_MemorySize :: int
  cfi_Tags :: "(string \<times> string) list"
  cfi_CodeS3Bucket :: string
  cfi_CodeS3Key :: string

record LogStream =
  LogStreamName :: string

record OutputLogEvent =
  ole_Timestamp :: int
  ole_Message :: string

record GetLogEventsInput =
  gle_NextToken :: "string option"
  gle_StartFromHead :: bool
  gle_LogGroupName :: string
  gle_LogStreamName :: string

record GetLogEventsOutput =
  Events :: "OutputLogEvent list"
  NextForwardToken :: "string option"

section \<open>Calls to the remote services\<close>

text \<open>
  Every request the deployer sends is recorded, in order, in a trace. The arguments of
  a constructor are the fields of the request in the order the source writes them:
  \<open>Call_GetLayerVersion LayerName VersionNumber\<close>, \<open>Call_HeadObject Bucket Key\<close>,
  \<open>Call_Upload Body Bucket Key\<close> (the body is the path of the opened file),
  \<open>Call_UpdateFunctionCode FunctionName S3Bucket S3Key\<close>,
  \<open>Call_PublishVersion CodeSha256 FunctionName\<close>,
  \<open>Call_DescribeLogStreams LogGroupName Descending OrderBy\<close>.
\<close>

datatype call =
    Call_ListLayerVersions string
  | Call_GetLayerVersion string int
  | Call_HeadObject string string
  | Call_Upload string string string
  | Call_PublishLayerVersion PublishLayerVersionInput
  | Call_GetFunction string
  | Call_UpdateFunctionConfiguration UpdateFunctionConfigurationInput
  | Call_UpdateFunctionCode string string string
  | Call_PublishVersion "string option" string
  | Call_CreateFunction CreateFunctionInput
  | Call_GetLogEvents GetLogEventsInput
  | Call_DescribeLogStreams string bool string

type_synonym trace = "call list"

text \<open>
  The world outside the deployer. A remote service answers a request as a function of
  the requests sent so far and of the request itself, so that the same request may be
  answered differently at different times; nothing else is assumed about a service.
  The local file system is read through \<open>fs_ReadFile\<close>, \<open>os_Open\<close> and \<open>file_Stat\<close>;
  \<open>digest\<close> is the cryptographic hash and \<open>base64_EncodeToString\<close> is
  \<open>base64.StdEncoding.EncodeToString\<close>.
\<close>

record services =
  fs_ReadFile :: "string \<Rightarrow> error + bytes"
  digest :: "bytes \<Rightarrow> bytes"
  base64_EncodeToString :: "bytes \<Rightarrow> string"
  os_Open :: "string \<Rightarrow> error + string"
  file_Stat :: "string \<Rightarrow> error + int"
  lambda_ListLayerVersions :: "trace \<Rightarrow> string \<Rightarrow> error + ListLayerVersionsOutput"
  lambda_GetLayerVersion :: "trace \<Rightarrow> string \<Rightarrow> int \<Rightarrow> error + LayerVersionOutput"
  s3_HeadObject :: "trace \<Rightarrow> string \<Rightarrow> string \<Rightarrow> error + HeadObjectOutput"
  s3manager_Upload :: "trace \<Rightarrow> string \<Rightarrow> string \<Rightarrow> string \<Rightarrow> error + unit"
  lambda_PublishLayerVersion :: "trace \<Rightarrow> PublishLayerVersionInput \<Rightarrow> error + LayerVersionOutput"
  lambda_GetFunction :: "trace \<Rightarrow> string \<Rightarrow> error + GetFunctionOutput"
  lambda_UpdateFunctionConfiguration ::
    "trace \<Rightarrow> UpdateFunctionConfigurationInput \<Rightarrow> error + FunctionConfiguration"
  lambda_UpdateFunctionCode :: "trace \<Rightarrow> string \<Rightarrow> string \<Rightarrow> string \<Rightarrow> error + FunctionConfiguration"
  lambda_PublishVersion :: "trace \<Rightarrow> string option \<Rightarrow> string \<Rightarrow> error + FunctionConfiguration"
  lambda_CreateFunction :: "trace \<Rightarrow> CreateFunctionInput \<Rightarrow> error + FunctionConfiguration"
  logs_GetLogEvents :: "trace \<Rightarrow> GetLogEventsInput \<Rightarrow> error + GetLogEventsOutput"
  logs_DescribeLogStreams :: "trace \<Rightarrow> string \<Rightarrow> bool \<Rightarrow> string \<Rightarrow> error + LogStream list"

text \<open>Sending a request: the answer, and the trace extended by the request.\<close>

definition ListLayerVersions ::
  "services \<Rightarrow> string \<Rightarrow> trace \<Rightarrow> (error + ListLayerVersionsOutput) \<times> trace" where
  "ListLayerVersions env name tr =
     (lambda_ListLayerVersions env tr name, tr @ [Call_ListLayerVersions name])"

definition GetLayerVersion ::
  "services \<Rightarrow> string \<Rightarrow> int \<Rightarrow> trace \<Rightarrow> (error + LayerVersionOutput) \<times> trace" where
  "GetLayerVersion env name ver tr =
     (lambda_GetLayerVersion env tr name ver, tr @ [Call_GetLayerVersion name ver])"

definition HeadObject ::
  "services \<Rightarrow> string \<Rightarrow> string \<Rightarrow> trace \<Rightarrow> (error + HeadObjectOutput) \<times> trace" where
  "HeadObject env bucket key tr =
     (s3_HeadObject env tr bucket key, tr @ [Call_HeadObject bucket key])"

definition Upload ::
  "services \<Rightarrow> string \<Rightarrow> string \<Rightarrow> string \<Rightarrow> trace \<Rightarrow> (error + unit) \<times> trace" where
  "Upload env body bucket key tr =
     (s3manager_Upload env tr body bucket key, tr @ [Call_Upload body bucket key])"

definition PublishLayerVersion ::
  "services \<Rightarrow> PublishLayerVersionInput \<Rightarrow> trace \<Rightarrow> (error + LayerVersionOutput) \<times> trace" where
  "PublishLayerVersion env inp tr =
     (lambda_PublishLayerVersion env tr inp, tr @ [Call_PublishLayerVersion inp])"

definition GetFunction ::
  "services \<Rightarrow> string \<Rightarrow> trace \<Rightarrow> (error + GetFunctionOutput) \<times> trace" where
  "GetFunction env name tr = (lambda_GetFunction env tr name, tr @ [Call_GetFunction name])"

definition UpdateFunctionConfiguration ::
  "services \<Rightarrow> UpdateFunctionConfigurationInput \<Rightarrow> trace \<Rightarrow>
     (error + FunctionConfiguration) \<times> trace" where
  "UpdateFunctionConfiguration env inp tr =
     (lambda_UpdateFunctionConfiguration env tr inp, tr @ [Call_UpdateFunctionConfiguration inp])"

definition UpdateFunctionCode ::
  "services \<Rightarrow> string \<Rightarrow> string \<Rightarrow> string \<Rightarrow> trace \<Rightarrow> (error + FunctionConfiguration) \<times> trace" where
  "UpdateFunctionCode env name bucket key tr =
     (lambda_UpdateFunctionCode env tr name bucket key, tr @ [Call_UpdateFunctionCode name bucket key])"

definition PublishVersion ::
  "services \<Rightarrow> string option \<Rightarrow> string \<Rightarrow> trace \<Rightarrow> (error + FunctionConfiguration) \<times> trace" where
  "PublishVersion env sha name tr =
     (lambda_PublishVersion env tr sha name, tr @ [Call_PublishVersion sha name])"

definition CreateFunction_request ::
  "services \<Rightarrow> CreateFunctionInput \<Rightarrow> trace \<Rightarrow> (error + FunctionConfiguration) \<times> trace" where
  "CreateFunction_request env inp tr =
     (lambda_CreateFunction env tr inp, tr @ [Call_CreateFunction inp])"

definition GetLogEvents ::
  "services \<Rightarrow> GetLogEventsInput \<Rightarrow> trace \<Rightarrow> (error + GetLogEventsOutput) \<times> trace" where
  "GetLogEvents env inp tr = (logs_GetLogEvents env tr inp, tr @ [Call_GetLogEvents inp])"

definition DescribeLogStreams ::
  "services \<Rightarrow> string \<Rightarrow> bool \<Rightarrow> string \<Rightarrow> trace \<Rightarrow> (error + LogStream list) \<times> trace" where
  "DescribeLogStreams env grp desc ord tr =
     (logs_DescribeLogStreams env tr grp desc ord, tr @ [Call_DescribeLogStreams grp desc ord])"

section \<open>Publishing a layer\<close>

text \<open>
  Modelled from the spec: \<open>HashFile\<close> is not among the sources. The spec's
  ContentHasher computes a stable content digest of a local artifact file, and a
  failure to do so is an error.
\<close>

definition HashFile :: "services \<Rightarrow> string \<Rightarrow> error + bytes" where
  "HashFile env path =
     (case fs_ReadFile env path of
        Inl err \<Rightarrow> Inl err
      | Inr content \<Rightarrow> Inr (digest env content))"

definition LambdaCodeSha256 :: "services \<Rightarrow> string \<Rightarrow> error + string" where
  "LambdaCodeSha256 env path =
     (case HashFile env path of
        Inl err \<Rightarrow> Inl err
      | Inr sumRaw \<Rightarrow> Inr (base64_EncodeToString env sumRaw))"

text \<open>
  The loop over \<open>list.LayerVersions\<close> in \<open>CreateLayer\<close>. \<open>Some r\<close>: the loop left the
  function with \<open>return r\<close>; \<open>None\<close>: the loop ran to its end.
\<close>

fun scanVersions ::
  "services \<Rightarrow> string \<Rightarrow> string \<Rightarrow> LayerVersionsListItem list \<Rightarrow> trace \<Rightarrow>
     (error + string) option \<times> trace" where
  "scanVersions env name sumB64 [] tr = (None, tr)"
| "scanVersions env name sumB64 (ver # vers) tr =
     (case GetLayerVersion env name (Version ver) tr of
        (Inl err, tr1) \<Rightarrow> (Some (Inl err), tr1)
      | (Inr info, tr1) \<Rightarrow>
          if ContentCodeSha256 info = sumB64 then (Some (Inr (LayerVersionArn info)), tr1)
          else scanVersions env name sumB64 vers tr1)"

text \<open>
  \<open>CreateLayer\<close>. The upload branch ends with \<open>return "", nil\<close> when the upload fails:
  the empty reference and a nil error, \<open>Inr []\<close>.
\<close>

definition CreateLayer ::
  "services \<Rightarrow> Deployer \<Rightarrow> Source \<Rightarrow> AppInfo \<Rightarrow> string \<Rightarrow> string \<Rightarrow> trace \<Rightarrow>
     (error + string) \<times> trace" where
  "CreateLayer env d app info name path tr =
     (case LambdaCodeSha256 env path of
        Inl err \<Rightarrow> (Inl err, tr)
      | Inr sumB64 \<Rightarrow>
         (case ListLayerVersions env name tr of (list, tr1) \<Rightarrow>
           (case (case list of
                    Inr l \<Rightarrow> scanVersions env name sumB64 (LayerVersions l) tr1
                  | Inl _ \<Rightarrow> (None, tr1)) of
              (Some r, tr2) \<Rightarrow> (r, tr2)
            | (None, tr2) \<Rightarrow>
               (case os_Open env path of
                  Inl err \<Rightarrow> (Inl err, tr2)
                | Inr f \<Rightarrow>
                   (case file_Stat env f of
                      Inl err \<Rightarrow> (Inl err, tr2)
                    | Inr stat \<Rightarrow>
                       (let layerName = App app @ ''-'' @ BuildId info @ ''-'' @ name @ ''.zip'' in
                        case HeadObject env (Bucket (config d)) layerName tr2 of (headOut, tr3) \<Rightarrow>
                          (case (case headOut of
                                   Inr _ \<Rightarrow> (None, tr3)
                                 | Inl _ \<Rightarrow>
                                    (case Upload env f (Bucket (config d)) layerName tr3 of
                                       (Inl err, tr4) \<Rightarrow> (Some (Inr []), tr4)
                                     | (Inr _, tr4) \<Rightarrow> (None, tr4))) of
                             (Some r, tr4) \<Rightarrow> (r, tr4)
                           | (None, tr4) \<Rightarrow>
                              (case PublishLayerVersion env
                                      \<lparr>plv_Description =
                                         ''devflow app '' @ App app @ '' - '' @ BuildId info,
                                       plv_LayerName = name,
                                       plv_CompatibleRuntimes = [Runtime info],
                                       plv_S3Bucket = Bucket (config d),
                                       plv_S3Key = layerName\<rparr> tr4 of
                                 (Inl err, tr5) \<Rightarrow>
                                   (Inl (Wrapf err (''attempting to publish: '' @ path)), tr5)
                               | (Inr pubOut, tr5) \<Rightarrow> (Inr (LayerVersionArn pubOut), tr5)))))))))"

definition CreateLibraryLayer ::
  "services \<Rightarrow> Deployer \<Rightarrow> Source \<Rightarrow> AppInfo \<Rightarrow> string \<Rightarrow> trace \<Rightarrow> (error + string) \<times> trace" where
  "CreateLibraryLayer env d app info path tr = CreateLayer env d app info (App app @ ''-lib'') path tr"

definition CreatePreLayer ::
  "services \<Rightarrow> Deployer \<Rightarrow> Source \<Rightarrow> AppInfo \<Rightarrow> string \<Rightarrow> trace \<Rightarrow> (error + string) \<times> trace" where
  "CreatePreLayer env d app info path tr = CreateLayer env d app info (App app @ ''-pre'') path tr"

section \<open>Creating or updating the function\<close>

text \<open>
  The loop over \<open>fnInfo.Configuration.Layers\<close> in \<open>CreateFunction\<close>, with its
  \<open>break\<close>: the value of \<open>newLayers\<close> after the loop.
\<close>

fun newLayers :: "Layer list \<Rightarrow> string \<Rightarrow> string \<Rightarrow> bool" where
  "newLayers [] preLayer libLayer = False"
| "newLayers (layer # layers) preLayer libLayer =
     (if \<not> (Arn layer = preLayer \<or> Arn layer = libLayer) then True
      else newLayers layers preLayer libLayer)"

text \<open>The branch of \<open>CreateFunction\<close> taken when \<open>GetFunction\<close> returned no error.\<close>

definition CreateFunction_update ::
  "services \<Rightarrow> Deployer \<Rightarrow> Source \<Rightarrow> AppInfo \<Rightarrow> string \<Rightarrow> string \<Rightarrow> string \<Rightarrow>
     GetFunctionOutput \<Rightarrow> trace \<Rightarrow> (error + string) \<times> trace" where
  "CreateFunction_update env d app info layerName preLayer libLayer fnInfo tr =
     (case (if newLayers (fc_Layers (Configuration fnInfo)) preLayer libLayer
            then (case UpdateFunctionConfiguration env
                         \<lparr>ufc_FunctionName = App app,
                          ufc_Layers = [preLayer, libLayer],
                          ufc_Handler = Some ''app.handler'',
                          ufc_Environment = None,
                          ufc_Role = Some (roleArn d),
                          ufc_Timeout = Some DefaultTimeout,
                          ufc_MemorySize = Some DefaultMemory,
                          ufc_Runtime = Some (Runtime info)\<rparr> tr of
                    (Inl err, tr1) \<Rightarrow> (Some err, tr1)
                  | (Inr _, tr1) \<Rightarrow> (None, tr1))
            else (None, tr)) of
        (Some err, tr1) \<Rightarrow> (Inl err, tr1)
      | (None, tr1) \<Rightarrow>
         (case UpdateFunctionCode env (App app) (Bucket (config d)) layerName tr1 of
            (Inl err, tr2) \<Rightarrow> (Inl err, tr2)
          | (Inr funcCfg, tr2) \<Rightarrow>
             (case PublishVersion env (Some (fc_CodeSha256 funcCfg)) (App app) tr2 of
                (Inl err, tr3) \<Rightarrow> (Inl err, tr3)
              | (Inr ver, tr3) \<Rightarrow> (Inr (fc_FunctionArn ver), tr3))))"

text \<open>The branch of \<open>CreateFunction\<close> taken when \<open>GetFunction\<close> returned an error.\<close>

definition CreateFunction_create ::
  "services \<Rightarrow> Deployer \<Rightarrow> Source \<Rightarrow> AppInfo \<Rightarrow> string \<Rightarrow> string \<Rightarrow> string \<Rightarrow> trace \<Rightarrow>
     (error + string) \<times> trace" where
  "CreateFunction_create env d app info layerName preLayer libLayer tr =
     (case CreateFunction_request env
             \<lparr>cfi_Description = ''devflow app '' @ App app @ '' - '' @ BuildId info,
              cfi_FunctionName = App app,
              cfi_Handler = ''app.handler'',
              cfi_Role = roleArn d,
              cfi_Runtime = Runtime info,
              cfi_Layers = [preLayer, libLayer],
              cfi_Timeout = DefaultTimeout,
              cfi_MemorySize = DefaultMemory,
              cfi_Tags = [(''devflow.app'', App app), (''devflow.app.id'', BuildId info)],
              cfi_CodeS3Bucket = Bucket (config d),
              cfi_CodeS3Key = layerName\<rparr> tr of
        (Inl err, tr1) \<Rightarrow> (Inl err, tr1)
      | (Inr funcOut, tr1) \<Rightarrow>
         (case PublishVersion env (Some (fc_CodeSha256 funcOut)) (App app) tr1 of
            (Inl err, tr2) \<Rightarrow> (Inl err, tr2)
          | (Inr ver, tr2) \<Rightarrow> (Inr (fc_FunctionArn ver), tr2)))"

definition CreateFunction ::
  "services \<Rightarrow> Deployer \<Rightarrow> Source \<Rightarrow> AppInfo \<Rightarrow> trace \<Rightarrow> (error + string) \<times> trace" where
  "CreateFunction env d app info tr =
     (case os_Open env (AppZip info) of
        Inl err \<Rightarrow> (Inl err, tr)
      | Inr f \<Rightarrow>
         (case file_Stat env f of
            Inl err \<Rightarrow> (Inl err, tr)
          | Inr stat \<Rightarrow>
             (let layerName = App app @ ''-'' @ BuildId info @ ''-app.zip'' in
              case Upload env f (Bucket (config d)) layerName tr of
                (Inl err, tr1) \<Rightarrow> (Inl err, tr1)
              | (Inr _, tr1) \<Rightarrow>
                 (case CreatePreLayer env d app info (PreZip info) tr1 of
                    (Inl err, tr2) \<Rightarrow> (Inl err, tr2)
                  | (Inr preLayer, tr2) \<Rightarrow>
                     (case CreateLibraryLayer env d app info (LibZip info) tr2 of
                        (Inl err, tr3) \<Rightarrow> (Inl err, tr3)
                      | (Inr libLayer, tr3) \<Rightarrow>
                         (case GetFunction env (App app) tr3 of
                            (Inr fnInfo, tr4) \<Rightarrow>
                              CreateFunction_update env d app info layerName preLayer libLayer
                                fnInfo tr4
                          | (Inl _, tr4) \<Rightarrow>
                              CreateFunction_create env d app info layerName preLayer libLayer
                                tr4))))))"

section \<open>Configuration variables\<close>

text \<open>
  \<open>ConfigSet\<close> returns an error (\<open>None\<close> is nil). The statement
  \<open>envvars[cv.Name] = aws.String(cv.Value)\<close> panics when \<open>envvars\<close> is a nil map.
\<close>

definition ConfigSet ::
  "services \<Rightarrow> Source \<Rightarrow> ConfigVar \<Rightarrow> trace \<Rightarrow> error option go \<times> trace" where
  "ConfigSet env app cv tr =
     (case GetFunction env (App app) tr of
        (Inl err, tr1) \<Rightarrow> (Returns (Some err), tr1)
      | (Inr fnInfo, tr1) \<Rightarrow>
         (let cur = Configuration fnInfo;
              envvars = (case fc_Environment cur of
                           Some e \<Rightarrow> Variables e
                         | None \<Rightarrow> Some Map.empty);
              layers = map Arn (fc_Layers cur)
          in case envvars of
               None \<Rightarrow> (Panics ''assignment to entry in nil map'', tr1)
             | Some m \<Rightarrow>
                (case UpdateFunctionConfiguration env
                        \<lparr>ufc_FunctionName = App app,
                         ufc_Layers = layers,
                         ufc_Handler = fc_Handler cur,
                         ufc_Environment = Some \<lparr>Variables = Some (m(Name cv \<mapsto> Value cv))\<rparr>,
                         ufc_Role = fc_Role cur,
                         ufc_Timeout = fc_Timeout cur,
                         ufc_MemorySize = fc_MemorySize cur,
                         ufc_Runtime = fc_Runtime cur\<rparr> tr1 of
                   (Inl err, tr2) \<Rightarrow> (Returns (Some err), tr2)
                 | (Inr _, tr2) \<Rightarrow>
                    (case PublishVersion env None (App app) tr2 of
                       (Inl err, tr3) \<Rightarrow> (Returns (Some err), tr3)
                     | (Inr ver, tr3) \<Rightarrow> (Returns None, tr3)))))"

text \<open>
  \<open>ConfigGet\<close> returns an error and stores the value in \<open>cv\<close>: the model returns the
  variable after the call and the error. \<open>cur.Environment.Variables\<close> dereferences
  \<open>cur.Environment\<close>, and panics when it is nil; reading a nil map finds no entry.
\<close>

definition ConfigGet ::
  "services \<Rightarrow> Source \<Rightarrow> ConfigVar \<Rightarrow> trace \<Rightarrow> (ConfigVar \<times> error option) go \<times> trace" where
  "ConfigGet env app cv tr =
     (case GetFunction env (App app) tr of
        (Inl err, tr1) \<Rightarrow> (Returns (cv, Some err), tr1)
      | (Inr fnInfo, tr1) \<Rightarrow>
         (let cur = Configuration fnInfo in
          case fc_Environment cur of
            None \<Rightarrow> (Panics ''nil pointer dereference'', tr1)
          | Some e \<Rightarrow>
             (case (case Variables e of None \<Rightarrow> None | Some m \<Rightarrow> m (Name cv)) of
                Some val \<Rightarrow> (Returns (cv\<lparr>Value := val\<rparr>, None), tr1)
              | None \<Rightarrow> (Returns (cv, Some ErrNoSuchVariable), tr1))))"

section \<open>Reading logs\<close>

text \<open>
  A \<open>time.Time\<close> as seconds since the Unix epoch and nanoseconds within the second.
  \<open>time_Unix\<close> is Go's \<open>time.Unix\<close>, which accepts any \<open>nsec\<close> and normalises it into
  \<open>[0, 999999999]\<close>; Go's integer division truncates towards zero (\<open>sdiv\<close>, \<open>smod\<close>).
  The timestamp is an int64 and no intermediate value leaves the int64 range, so
  the arithmetic is done on \<open>int\<close>.
\<close>

record Time =
  sec :: int
  nsec :: int

definition time_Unix :: "int \<Rightarrow> int \<Rightarrow> Time" where
  "time_Unix s ns =
     (if ns < 0 \<or> ns \<ge> 1000000000 then
        (let n = ns sdiv 1000000000;
             s1 = s + n;
             ns1 = ns - n * 1000000000
         in if ns1 < 0 then \<lparr>sec = s1 - 1, nsec = ns1 + 1000000000\<rparr>
            else \<lparr>sec = s1, nsec = ns1\<rparr>)
      else \<lparr>sec = s, nsec = ns\<rparr>)"

text \<open>
  \<open>strings.TrimRight(s, cutset)\<close> for a cutset of ASCII characters: the bytes of the
  cutset are removed from the end of \<open>s\<close>.
\<close>

definition strings_TrimRight :: "string \<Rightarrow> string \<Rightarrow> string" where
  "strings_TrimRight s cutset = rev (dropWhile (\<lambda>c. c \<in> set cutset) (rev s))"

record LogEvent =
  Partition :: string
  Timestamp :: Time
  Message :: string

text \<open>The viewer; its client \<open>logs\<close> is the services record.\<close>

record cloudwatchLogsViewer =
  group :: string
  lastToken :: "string option"
  stream :: "LogStream option"
  streams :: "LogStream list"

text \<open>The body of the loop over \<open>output.Events\<close>: one raw event becomes a log event.\<close>

definition toLogEvent :: "LogStream \<Rightarrow> OutputLogEvent \<Rightarrow> LogEvent" where
  "toLogEvent s ev =
     (let ms = ole_Timestamp ev;
          ts = time_Unix (ms sdiv 1000) ((ms smod 1000) * 1000000);
          msg = strings_TrimRight (ole_Message ev) [CHR 0x0A, CHR 0x09]
      in \<lparr>Partition = LogStreamName s, Timestamp = ts, Message = msg\<rparr>)"

text \<open>
  The head of the loop of \<open>NextLogBatch\<close>: with no active stream, the next stream is
  taken off \<open>streams\<close> and the token is reset. \<open>None\<close>: no stream is left and the
  function returns \<open>nil, nil\<close>; otherwise the active stream and the viewer.
\<close>

definition activeStream :: "cloudwatchLogsViewer \<Rightarrow> (LogStream \<times> cloudwatchLogsViewer) option" where
  "activeStream c =
     (case stream c of
        None \<Rightarrow>
          (case streams c of
             [] \<Rightarrow> None
           | s # rest \<Rightarrow> Some (s, c\<lparr>stream := Some s, streams := rest, lastToken := None\<rparr>))
      | Some s \<Rightarrow> Some (s, c))"

function NextLogBatch ::
  "services \<Rightarrow> cloudwatchLogsViewer \<Rightarrow> trace \<Rightarrow>
     (error + LogEvent list) \<times> cloudwatchLogsViewer \<times> trace" where
  "NextLogBatch env c tr =
     (case activeStream c of
        None \<Rightarrow> (Inr [], c, tr)
      | Some (s, c1) \<Rightarrow>
         (case GetLogEvents env
                 \<lparr>gle_NextToken = lastToken c1,
                  gle_StartFromHead = True,
                  gle_LogGroupName = group c1,
                  gle_LogStreamName = LogStreamName s\<rparr> tr of
            (Inl err, tr1) \<Rightarrow> (Inl err, c1, tr1)
          | (Inr output, tr1) \<Rightarrow>
             if length (Events output) \<noteq> 0
             then (Inr (map (toLogEvent s) (Events output)),
                   c1\<lparr>lastToken := NextForwardToken output\<rparr>, tr1)
             else NextLogBatch env (c1\<lparr>stream := None\<rparr>) tr1))"
  by pat_completeness auto
termination
  by (relation "measure (\<lambda>(env, c, tr).
        2 * length (streams c) + (case stream c of None \<Rightarrow> 0 | Some _ \<Rightarrow> 1))")
     (auto simp: activeStream_def split: option.splits list.splits)

declare NextLogBatch.simps [simp del]

definition Logs ::
  "services \<Rightarrow> Source \<Rightarrow> trace \<Rightarrow> (error + cloudwatchLogsViewer) \<times> trace" where
  "Logs env app tr =
     (case DescribeLogStreams env (''/aws/lambda/'' @ App app) False ''LastEventTime'' tr of
        (Inl err, tr1) \<Rightarrow> (Inl err, tr1)
      | (Inr ss, tr1) \<Rightarrow>
          (Inr \<lparr>group = ''/aws/lambda/'' @ App app, lastToken = None, stream = None,
                streams = ss\<rparr>, tr1))"

section \<open>Notions used to state the properties\<close>

text \<open>The requests sent by the loop of \<open>CreateLayer\<close> over a list of versions.\<close>

definition scanCalls :: "string \<Rightarrow> LayerVersionsListItem list \<Rightarrow> trace" where
  "scanCalls name vers = map (\<lambda>ver. Call_GetLayerVersion name (Version ver)) vers"

text \<open>
  The partitions a viewer has still to read, in order: the active one, then
  \<open>streams\<close>; and the request \<open>NextLogBatch\<close> sends for each when it is reached, the
  active partition with the token kept, the others from their head.
\<close>

definition pending :: "cloudwatchLogsViewer \<Rightarrow> LogStream list" where
  "pending c = (case stream c of None \<Rightarrow> [] | Some s \<Rightarrow> [s]) @ streams c"

definition requestFor :: "cloudwatchLogsViewer \<Rightarrow> string option \<Rightarrow> LogStream \<Rightarrow> GetLogEventsInput" where
  "requestFor c token s =
     \<lparr>gle_NextToken = token, gle_StartFromHead = True, gle_LogGroupName = group c,
      gle_LogStreamName = LogStreamName s\<rparr>"

definition pendingRequests :: "cloudwatchLogsViewer \<Rightarrow> GetLogEventsInput list" where
  "pendingRequests c =
     (case stream c of None \<Rightarrow> [] | Some s \<Rightarrow> [requestFor c (lastToken c) s]) @
     map (requestFor c None) (streams c)"

text \<open>
  A sequence of calls of \<open>NextLogBatch\<close> on one viewer; \<open>gaps\<close> holds, for each call, the
  requests other callers sent since the call before. The results are kept in order.
\<close>

fun NextLogBatches ::
  "services \<Rightarrow> trace list \<Rightarrow> cloudwatchLogsViewer \<Rightarrow> trace \<Rightarrow>
     (error + LogEvent list) list \<times> cloudwatchLogsViewer \<times> trace" where
  "NextLogBatches env [] c tr = ([], c, tr)"
| "NextLogBatches env (gap # gaps) c tr =
     (case NextLogBatch env c (tr @ gap) of (r, c1, tr1) \<Rightarrow>
        (case NextLogBatches env gaps c1 tr1 of (rs, c2, tr2) \<Rightarrow> (r # rs, c2, tr2)))"

definition returnedEvents :: "(error + LogEvent list) list \<Rightarrow> LogEvent list" where
  "returnedEvents rs = concat (map (\<lambda>r. case r of Inl _ \<Rightarrow> [] | Inr evs \<Rightarrow> evs) rs)"

text \<open>\<open>blocks [k1, k2, ...] [x1, x2, ...]\<close>: \<open>k1\<close> times \<open>x1\<close>, then \<open>k2\<close> times \<open>x2\<close>, ...\<close>

definition blocks :: "nat list \<Rightarrow> 'a list \<Rightarrow> 'a list" where
  "blocks ks xs = concat (map (\<lambda>(k, x). replicate k x) (zip ks xs))"

text \<open>Every request of the list, sent in order, is answered with no event.\<close>

fun allEmpty :: "services \<Rightarrow> GetLogEventsInput list \<Rightarrow> trace \<Rightarrow> bool" where
  "allEmpty env [] tr = True"
| "allEmpty env (r # rs) tr =
     (case logs_GetLogEvents env tr r of
        Inl _ \<Rightarrow> False
      | Inr out \<Rightarrow> Events out = [] \<and> allEmpty env rs (tr @ [Call_GetLogEvents r]))"

text \<open>The instant of a \<open>Time\<close>, in nanoseconds since the Unix epoch.\<close>

definition unixNano :: "Time \<Rightarrow> int" where
  "unixNano t = sec t * 1000000000 + nsec t"

text \<open>
  The spec's words for the message, \<open>trimmed of trailing whitespace/newlines\<close>:
  every trailing white space character (tab, line feed, vertical tab, form feed,
  carriage return, space) is removed.
\<close>

definition isSpace :: "char \<Rightarrow> bool" where
  "isSpace ch \<longleftrightarrow> ch \<in> {CHR 0x09, CHR 0x0A, CHR 0x0B, CHR 0x0C, CHR 0x0D, CHR 0x20}"

definition trimTrailingWhitespace :: "string \<Rightarrow> string" where
  "trimTrailingWhitespace s = rev (dropWhile isSpace (rev s))"

section \<open>Concrete worlds\<close>

text \<open>
  An account with no layer, no stored object and no function, in which uploads and
  layer publishes succeed. Every local file holds the same bytes; the digest and its
  encoding are the identity.
\<close>

definition world0 :: services where
  "world0 =
     \<lparr>fs_ReadFile = (\<lambda>p. Inr ''PK-zip-bytes''),
      digest = (\<lambda>b. b),
      base64_EncodeToString = (\<lambda>b. b),
      os_Open = (\<lambda>p. Inr p),
      file_Stat = (\<lambda>f. Inr 12),
      lambda_ListLayerVersions = (\<lambda>tr n. Inr \<lparr>LayerVersions = []\<rparr>),
      lambda_GetLayerVersion = (\<lambda>tr n v. Inl (Err ''no such version'')),
      s3_HeadObject = (\<lambda>tr b k. Inl (Err ''NotFound'')),
      s3manager_Upload = (\<lambda>tr f b k. Inr ()),
      lambda_PublishLayerVersion =
        (\<lambda>tr inp. Inr \<lparr>LayerArn = ''arn:'' @ plv_LayerName inp,
                        LayerVersionArn = ''arn:'' @ plv_LayerName inp @ '':1'',
                        ContentCodeSha256 = ''PK-zip-bytes''\<rparr>),
      lambda_GetFunction = (\<lambda>tr n. Inl (Err ''ResourceNotFound'')),
      lambda_UpdateFunctionConfiguration = (\<lambda>tr inp. Inl (Err ''ResourceNotFound'')),
      lambda_UpdateFunctionCode = (\<lambda>tr n b k. Inl (Err ''ResourceNotFound'')),
      lambda_PublishVersion = (\<lambda>tr sha n. Inl (Err ''ResourceNotFound'')),
      lambda_CreateFunction = (\<lambda>tr inp. Inl (Err ''AccessDenied'')),
      logs_GetLogEvents = (\<lambda>tr inp. Inl (Err ''ResourceNotFound'')),
      logs_DescribeLogStreams = (\<lambda>tr g d ord. Inl (Err ''ResourceNotFound''))\<rparr>"

definition dep0 :: Deployer where
  "dep0 = \<lparr>config = \<lparr>Bucket = ''bkt''\<rparr>, roleName = ''lambda-web'', roleArn = ''arn:role''\<rparr>"

definition app0 :: Source where
  "app0 = \<lparr>App = ''web''\<rparr>"

definition info0 :: AppInfo where
  "info0 = \<lparr>BuildId = ''b1'', Runtime = ''ruby2.5'', AppZip = ''app.zip'',
             PreZip = ''pre.zip'', LibZip = ''lib.zip''\<rparr>"

definition info1 :: AppInfo where
  "info1 = \<lparr>BuildId = ''b2'', Runtime = ''ruby2.5'', AppZip = ''app.zip'',
             PreZip = ''pre.zip'', LibZip = ''lib.zip''\<rparr>"

text \<open>The blob storage refuses every upload.\<close>

definition worldUploadFails :: services where
  "worldUploadFails = world0\<lparr>s3manager_Upload := (\<lambda>tr f b k. Inl (Err ''upload failed''))\<rparr>"

text \<open>The listing of layer versions fails.\<close>

definition worldListFails :: services where
  "worldListFails = world0\<lparr>lambda_ListLayerVersions := (\<lambda>tr n. Inl (Err ''throttled''))\<rparr>"

text \<open>
  Two versions are listed; version 2 holds other content, and the details of version 1
  cannot be fetched.
\<close>

definition worldGetFails :: services where
  "worldGetFails =
     world0\<lparr>lambda_ListLayerVersions :=
               (\<lambda>tr n. Inr \<lparr>LayerVersions = [\<lparr>Version = 2\<rparr>, \<lparr>Version = 1\<rparr>]\<rparr>),
            lambda_GetLayerVersion :=
               (\<lambda>tr n v. if v = 2
                          then Inr \<lparr>LayerArn = ''arn:'' @ n, LayerVersionArn = ''arn:'' @ n @ '':2'',
                                    ContentCodeSha256 = ''other-bytes''\<rparr>
                          else Inl (Err ''AccessDenied''))\<rparr>"

text \<open>
  A platform that keeps what was published: once a version of a layer has been
  published, the layer lists version 1, whose stored digest is the digest of the
  uploaded bytes.
\<close>

definition published :: "trace \<Rightarrow> string \<Rightarrow> bool" where
  "published tr name =
     list_ex (\<lambda>c. case c of Call_PublishLayerVersion inp \<Rightarrow> plv_LayerName inp = name
                   | _ \<Rightarrow> False) tr"

definition worldLayers :: services where
  "worldLayers =
     world0\<lparr>lambda_ListLayerVersions :=
               (\<lambda>tr n. Inr \<lparr>LayerVersions = (if published tr n then [\<lparr>Version = 1\<rparr>] else [])\<rparr>),
            lambda_GetLayerVersion :=
               (\<lambda>tr n v. if published tr n \<and> v = 1
                          then Inr \<lparr>LayerArn = ''arn:'' @ n, LayerVersionArn = ''arn:'' @ n @ '':1'',
                                    ContentCodeSha256 = ''PK-zip-bytes''\<rparr>
                          else Inl (Err ''no such version''))\<rparr>"

definition traceFirstPublish :: trace where
  "traceFirstPublish =
     [Call_ListLayerVersions ''web-lib'',
      Call_HeadObject ''bkt'' ''web-b1-web-lib.zip'',
      Call_Upload ''build1/lib.zip'' ''bkt'' ''web-b1-web-lib.zip'',
      Call_PublishLayerVersion
        \<lparr>plv_Description = ''devflow app web - b1'', plv_LayerName = ''web-lib'',
         plv_CompatibleRuntimes = [''ruby2.5''], plv_S3Bucket = ''bkt'',
         plv_S3Key = ''web-b1-web-lib.zip''\<rparr>]"

text \<open>Reading the file \<open>pre.zip\<close>, respectively \<open>lib.zip\<close>, fails.\<close>

definition worldPreFails :: services where
  "worldPreFails =
     world0\<lparr>fs_ReadFile := (\<lambda>p. if p = ''pre.zip'' then Inl (Err ''open pre.zip: no such file'')
                               else Inr ''PK-zip-bytes'')\<rparr>"

definition worldLibFails :: services where
  "worldLibFails =
     world0\<lparr>fs_ReadFile := (\<lambda>p. if p = ''lib.zip'' then Inl (Err ''open lib.zip: no such file'')
                               else Inr ''PK-zip-bytes'')\<rparr>"

text \<open>
  A deployed function. Its configuration has two layers attached, an older version of
  the pre layer and the current version of the lib layer, and no environment.
\<close>

definition fnConfig0 :: FunctionConfiguration where
  "fnConfig0 =
     \<lparr>fc_Layers = [\<lparr>Arn = ''arn:web-pre:0''\<rparr>, \<lparr>Arn = ''arn:web-lib:1''\<rparr>],
      fc_Environment = None,
      fc_Handler = Some ''app.handler'',
      fc_Role = Some ''arn:role'',
      fc_Timeout = Some 60,
      fc_MemorySize = Some 256,
      fc_Runtime = Some ''ruby2.5'',
      fc_CodeSha256 = ''sha-app'',
      fc_FunctionArn = ''arn:fn:1''\<rparr>"

definition worldDeployed :: services where
  "worldDeployed =
     world0\<lparr>lambda_GetFunction := (\<lambda>tr n. Inr \<lparr>Configuration = fnConfig0\<rparr>),
            lambda_UpdateFunctionConfiguration := (\<lambda>tr inp. Inr fnConfig0),
            lambda_UpdateFunctionCode :=
              (\<lambda>tr n b k. Inr (fnConfig0\<lparr>fc_CodeSha256 := ''sha-new''\<rparr>)),
            lambda_PublishVersion :=
              (\<lambda>tr sha n. Inr (fnConfig0\<lparr>fc_FunctionArn := ''arn:fn:2''\<rparr>))\<rparr>"

text \<open>The same function with no layer attached.\<close>

definition worldNoLayers :: services where
  "worldNoLayers =
     worldDeployed\<lparr>lambda_GetFunction :=
        (\<lambda>tr n. Inr \<lparr>Configuration = fnConfig0\<lparr>fc_Layers := []\<rparr>\<rparr>)\<rparr>"

text \<open>
  The requests of \<open>CreateFunction\<close> in \<open>world0\<close> and the worlds derived from it, up to
  the publish of the pre layer and up to the publish of the lib layer.
\<close>

definition tracePre0 :: trace where
  "tracePre0 =
     [Call_Upload ''app.zip'' ''bkt'' ''web-b1-app.zip'',
      Call_ListLayerVersions ''web-pre'',
      Call_HeadObject ''bkt'' ''web-b1-web-pre.zip'',
      Call_Upload ''pre.zip'' ''bkt'' ''web-b1-web-pre.zip'',
      Call_PublishLayerVersion
        \<lparr>plv_Description = ''devflow app web - b1'', plv_LayerName = ''web-pre'',
         plv_CompatibleRuntimes = [''ruby2.5''], plv_S3Bucket = ''bkt'',
         plv_S3Key = ''web-b1-web-pre.zip''\<rparr>]"

definition traceLayers0 :: trace where
  "traceLayers0 =
     tracePre0 @
     [Call_ListLayerVersions ''web-lib'',
      Call_HeadObject ''bkt'' ''web-b1-web-lib.zip'',
      Call_Upload ''lib.zip'' ''bkt'' ''web-b1-web-lib.zip'',
      Call_PublishLayerVersion
        \<lparr>plv_Description = ''devflow app web - b1'', plv_LayerName = ''web-lib'',
         plv_CompatibleRuntimes = [''ruby2.5''], plv_S3Bucket = ''bkt'',
         plv_S3Key = ''web-b1-web-lib.zip''\<rparr>]"

text \<open>The configuration shows what a request wrote.\<close>

definition stores :: "FunctionConfiguration \<Rightarrow> UpdateFunctionConfigurationInput \<Rightarrow> bool" where
  "stores cfg inp \<longleftrightarrow>
     map Arn (fc_Layers cfg) = ufc_Layers inp \<and>
     fc_Environment cfg = ufc_Environment inp \<and>
     fc_Handler cfg = ufc_Handler inp \<and>
     fc_Role cfg = ufc_Role inp \<and>
     fc_Timeout cfg = ufc_Timeout inp \<and>
     fc_MemorySize cfg = ufc_MemorySize inp \<and>
     fc_Runtime cfg = ufc_Runtime inp"

text \<open>
  A platform that keeps the configuration written last: \<open>GetFunction\<close> returns the
  configuration of the deployed function as changed by the configuration updates sent
  so far.
\<close>

fun storeUpdate :: "FunctionConfiguration \<Rightarrow> call \<Rightarrow> FunctionConfiguration" where
  "storeUpdate cfg (Call_UpdateFunctionConfiguration inp) =
     cfg\<lparr>fc_Layers := map (\<lambda>a. \<lparr>Arn = a\<rparr>) (ufc_Layers inp),
         fc_Environment := ufc_Environment inp,
         fc_Handler := ufc_Handler inp,
         fc_Role := ufc_Role inp,
         fc_Timeout := ufc_Timeout inp,
         fc_MemorySize := ufc_MemorySize inp,
         fc_Runtime := ufc_Runtime inp\<rparr>"
| "storeUpdate cfg _ = cfg"

definition worldConfig :: services where
  "worldConfig =
     worldDeployed\<lparr>lambda_GetFunction :=
        (\<lambda>tr n. Inr \<lparr>Configuration = foldl storeUpdate fnConfig0 tr\<rparr>)\<rparr>"

definition traceSetA :: trace where
  "traceSetA =
     [Call_GetFunction ''web'',
      Call_UpdateFunctionConfiguration
        \<lparr>ufc_FunctionName = ''web'',
         ufc_Layers = [''arn:web-pre:0'', ''arn:web-lib:1''],
         ufc_Handler = Some ''app.handler'',
         ufc_Environment = Some \<lparr>Variables = Some [''A'' \<mapsto> ''1'']\<rparr>,
         ufc_Role = Some ''arn:role'',
         ufc_Timeout = Some 60,
         ufc_MemorySize = Some 256,
         ufc_Runtime = Some ''ruby2.5''\<rparr>,
      Call_PublishVersion None ''web'']"

text \<open>
  A log group with three partitions: \<open>s0\<close> has no event, \<open>s1\<close> has one page of two
  events, \<open>s2\<close> one page of one event; every later page is empty.
\<close>

definition worldLogs :: services where
  "worldLogs =
     world0\<lparr>logs_GetLogEvents :=
        (\<lambda>tr inp.
           if gle_LogStreamName inp = ''s1'' \<and> gle_NextToken inp = None
           then Inr \<lparr>Events =
                       [\<lparr>ole_Timestamp = 1500, ole_Message = ''ready '' @ [CHR 0x0A]\<rparr>,
                        \<lparr>ole_Timestamp = 2000, ole_Message = ''GET /'' @ [CHR 0x09, CHR 0x0A]\<rparr>],
                     NextForwardToken = Some ''f1''\<rparr>
           else if gle_LogStreamName inp = ''s2'' \<and> gle_NextToken inp = None
           then Inr \<lparr>Events = [\<lparr>ole_Timestamp = - 1, ole_Message = ''bye''\<rparr>],
                     NextForwardToken = Some ''f2''\<rparr>
           else Inr \<lparr>Events = [], NextForwardToken = gle_NextToken inp\<rparr>),
      logs_DescribeLogStreams :=
        (\<lambda>tr g d ord. Inr [\<lparr>LogStreamName = ''s0''\<rparr>, \<lparr>LogStreamName = ''s1''\<rparr>,
                            \<lparr>LogStreamName = ''s2''\<rparr>])\<rparr>"

definition viewer0 :: cloudwatchLogsViewer where
  "viewer0 =
     \<lparr>group = ''/aws/lambda/web'', lastToken = None, stream = None,
      streams = [\<lparr>LogStreamName = ''s0''\<rparr>, \<lparr>LogStreamName = ''s1''\<rparr>,
                 \<lparr>LogStreamName = ''s2''\<rparr>]\<rparr>"


text \<open>The viewer after its first batch, that batch and the requests sent for it.\<close>

definition eventsFirst :: "LogEvent list" where
  "eventsFirst =
     [\<lparr>Partition = ''s1'', Timestamp = \<lparr>sec = 1, nsec = 500000000\<rparr>, Message = ''ready ''\<rparr>,
      \<lparr>Partition = ''s1'', Timestamp = \<lparr>sec = 2, nsec = 0\<rparr>, Message = ''GET /''\<rparr>]"

definition viewerFirst :: cloudwatchLogsViewer where
  "viewerFirst =
     \<lparr>group = ''/aws/lambda/web'', lastToken = Some ''f1'',
      stream = Some \<lparr>LogStreamName = ''s1''\<rparr>, streams = [\<lparr>LogStreamName = ''s2''\<rparr>]\<rparr>"

definition traceFirst :: trace where
  "traceFirst =
     [Call_GetLogEvents
        \<lparr>gle_NextToken = None, gle_StartFromHead = True,
         gle_LogGroupName = ''/aws/lambda/web'', gle_LogStreamName = ''s0''\<rparr>,
      Call_GetLogEvents
        \<lparr>gle_NextToken = None, gle_StartFromHead = True,
         gle_LogGroupName = ''/aws/lambda/web'', gle_LogStreamName = ''s1''\<rparr>]"

text \<open>The viewer when the last partition has returned its page, and a viewer of empty partitions.\<close>

definition viewerLast :: cloudwatchLogsViewer where
  "viewerLast =
     \<lparr>group = ''/aws/lambda/web'', lastToken = Some ''f2'',
      stream = Some \<lparr>LogStreamName = ''s2''\<rparr>, streams = []\<rparr>"

definition viewerEmpty :: cloudwatchLogsViewer where
  "viewerEmpty =
     \<lparr>group = ''/aws/lambda/web'', lastToken = None, stream = None,
      streams = [\<lparr>LogStreamName = ''s0''\<rparr>, \<lparr>LogStreamName = ''s3''\<rparr>]\<rparr>"

section \<open>The scan for a version to reuse\<close>

lemma scanCalls_simps [simp]:
  "scanCalls name [] = []"
  "scanCalls name (v # vs) = Call_GetLayerVersion name (Version v) # scanCalls name vs"
  "scanCalls name (xs @ ys) = scanCalls name xs @ scanCalls name ys"
  by (simp_all add: scanCalls_def)

text \<open>Versions whose details are fetched and whose digest differs are passed over.\<close>

lemma scanVersions_skip:
  assumes "\<forall>j<length before. \<exists>out.
             lambda_GetLayerVersion env (tr @ scanCalls name (take j before)) name
               (Version (before ! j)) = Inr out \<and> ContentCodeSha256 out \<noteq> s"
  shows "scanVersions env name s (before @ rest) tr =
         scanVersions env name s rest (tr @ scanCalls name before)"
  using assms
proof (induction before arbitrary: tr)
  case Nil
  then show ?case by simp
next
  case (Cons v before)
  from Cons.prems [rule_format, of 0]
  obtain out where out: "lambda_GetLayerVersion env tr name (Version v) = Inr out"
    "ContentCodeSha256 out \<noteq> s"
    by auto
  have "\<forall>j<length before. \<exists>out.
          lambda_GetLayerVersion env ((tr @ [Call_GetLayerVersion name (Version v)]) @
             scanCalls name (take j before)) name (Version (before ! j)) = Inr out \<and>
          ContentCodeSha256 out \<noteq> s"
  proof (intro allI impI)
    fix j assume "j < length before"
    then have "Suc j < length (v # before)" by simp
    from Cons.prems [rule_format, OF this] show "\<exists>out.
          lambda_GetLayerVersion env ((tr @ [Call_GetLayerVersion name (Version v)]) @
             scanCalls name (take j before)) name (Version (before ! j)) = Inr out \<and>
          ContentCodeSha256 out \<noteq> s"
      by simp
  qed
  from Cons.IH [OF this] out show ?case
    by (simp add: GetLayerVersion_def)
qed

lemma scanVersions_error:
  assumes "\<forall>j<length before. \<exists>out.
             lambda_GetLayerVersion env (tr @ scanCalls name (take j before)) name
               (Version (before ! j)) = Inr out \<and> ContentCodeSha256 out \<noteq> s"
    and "lambda_GetLayerVersion env (tr @ scanCalls name before) name (Version ver) = Inl e"
  shows "scanVersions env name s (before @ ver # rest) tr =
         (Some (Inl e), tr @ scanCalls name (before @ [ver]))"
  using scanVersions_skip [OF assms(1), of "ver # rest"] assms(2)
  by (simp add: GetLayerVersion_def)

lemma scanVersions_match:
  assumes "\<forall>j<length before. \<exists>out.
             lambda_GetLayerVersion env (tr @ scanCalls name (take j before)) name
               (Version (before ! j)) = Inr out \<and> ContentCodeSha256 out \<noteq> s"
    and "lambda_GetLayerVersion env (tr @ scanCalls name before) name (Version ver) = Inr out"
    and "ContentCodeSha256 out = s"
  shows "scanVersions env name s (before @ ver # rest) tr =
         (Some (Inr (LayerVersionArn out)), tr @ scanCalls name (before @ [ver]))"
  using scanVersions_skip [OF assms(1), of "ver # rest"] assms(2,3)
  by (simp add: GetLayerVersion_def)

lemmas base_defs = world0_def dep0_def app0_def info0_def

lemmas request_defs =
  ListLayerVersions_def GetLayerVersion_def HeadObject_def Upload_def PublishLayerVersion_def
  GetFunction_def UpdateFunctionConfiguration_def UpdateFunctionCode_def PublishVersion_def
  CreateFunction_request_def GetLogEvents_def DescribeLogStreams_def

section \<open>Publishing a layer: properties\<close>

text \<open>
  C1. The claim: when no version matches, no object exists at the key and the upload
  fails, \<open>CreateLayer\<close> fails with the upload error and publishes nothing. At the
  input below the listing is empty, \<open>HeadObject\<close> finds nothing and the upload fails
  with \<open>Err ''upload failed''\<close>: no layer version is published, but \<open>CreateLayer\<close>
  returns the empty reference with a nil error (\<open>return "", nil\<close>) instead of the
  upload error.
\<close>

theorem CreateLayer_upload_failure_returns_nil_error:
  "CreateLayer worldUploadFails dep0 app0 info0 ''web-lib'' ''lib.zip'' [] =
     (Inr [],
      [Call_ListLayerVersions ''web-lib'',
       Call_HeadObject ''bkt'' ''web-b1-web-lib.zip'',
       Call_Upload ''lib.zip'' ''bkt'' ''web-b1-web-lib.zip''])"
  by (simp add: CreateLayer_def LambdaCodeSha256_def HashFile_def Let_def base_defs
      worldUploadFails_def request_defs)

text \<open>
  C10. Failures in the scan for a reusable version are handled in two ways.
  When the listing fails, \<open>CreateLayer\<close> behaves exactly as it does when the listing
  succeeds with no version, and (the file being readable) goes on to ask the blob
  storage for the object. When the listing succeeds and the details of a version
  cannot be fetched, every version listed ahead of it having been fetched with
  another digest, \<open>CreateLayer\<close> returns that error, and the only requests it sent
  are the listing and the fetches: no upload, no publish.
\<close>

theorem CreateLayer_scan_failures:
  "(lambda_ListLayerVersions env tr name = Inl e \<longrightarrow>
      CreateLayer env d app info name path tr =
      CreateLayer (env\<lparr>lambda_ListLayerVersions := \<lambda>_ _. Inr \<lparr>LayerVersions = []\<rparr>\<rparr>)
        d app info name path tr) \<and>
   (lambda_ListLayerVersions env tr name = Inl e \<longrightarrow>
    LambdaCodeSha256 env path = Inr s \<longrightarrow> os_Open env path = Inr f \<longrightarrow>
    file_Stat env f = Inr n \<longrightarrow>
      (\<exists>rest. snd (CreateLayer env d app info name path tr) =
         tr @ Call_ListLayerVersions name #
           Call_HeadObject (Bucket (config d))
             (App app @ ''-'' @ BuildId info @ ''-'' @ name @ ''.zip'') # rest)) \<and>
   (LambdaCodeSha256 env path = Inr s \<longrightarrow>
    lambda_ListLayerVersions env tr name = Inr l \<longrightarrow>
    LayerVersions l = before @ ver # after \<longrightarrow>
    (\<forall>j<length before. \<exists>out.
        lambda_GetLayerVersion env
          (tr @ Call_ListLayerVersions name # scanCalls name (take j before)) name
          (Version (before ! j)) = Inr out \<and> ContentCodeSha256 out \<noteq> s) \<longrightarrow>
    lambda_GetLayerVersion env (tr @ Call_ListLayerVersions name # scanCalls name before)
      name (Version ver) = Inl e' \<longrightarrow>
      CreateLayer env d app info name path tr =
        (Inl e', tr @ Call_ListLayerVersions name # scanCalls name (before @ [ver])))"
proof (intro conjI impI)
  assume "lambda_ListLayerVersions env tr name = Inl e"
  then show "CreateLayer env d app info name path tr =
      CreateLayer (env\<lparr>lambda_ListLayerVersions := \<lambda>_ _. Inr \<lparr>LayerVersions = []\<rparr>\<rparr>)
        d app info name path tr"
    by (simp add: CreateLayer_def ListLayerVersions_def LambdaCodeSha256_def HashFile_def
        HeadObject_def Upload_def PublishLayerVersion_def
        cong: sum.case_cong prod.case_cong option.case_cong)
next
  assume "lambda_ListLayerVersions env tr name = Inl e" "LambdaCodeSha256 env path = Inr s"
    "os_Open env path = Inr f" "file_Stat env f = Inr n"
  then show "\<exists>rest. snd (CreateLayer env d app info name path tr) =
         tr @ Call_ListLayerVersions name #
           Call_HeadObject (Bucket (config d))
             (App app @ ''-'' @ BuildId info @ ''-'' @ name @ ''.zip'') # rest"
    by (simp add: CreateLayer_def ListLayerVersions_def Let_def
        HeadObject_def Upload_def PublishLayerVersion_def split: sum.splits prod.splits)
next
  assume a: "LambdaCodeSha256 env path = Inr s"
    "lambda_ListLayerVersions env tr name = Inr l"
    "LayerVersions l = before @ ver # after"
    "\<forall>j<length before. \<exists>out.
        lambda_GetLayerVersion env
          (tr @ Call_ListLayerVersions name # scanCalls name (take j before)) name
          (Version (before ! j)) = Inr out \<and> ContentCodeSha256 out \<noteq> s"
    "lambda_GetLayerVersion env (tr @ Call_ListLayerVersions name # scanCalls name before)
      name (Version ver) = Inl e'"
  have "scanVersions env name s (before @ ver # after) (tr @ [Call_ListLayerVersions name]) =
         (Some (Inl e'), (tr @ [Call_ListLayerVersions name]) @ scanCalls name (before @ [ver]))"
    by (rule scanVersions_error) (use a in simp_all)
  with a show "CreateLayer env d app info name path tr =
        (Inl e', tr @ Call_ListLayerVersions name # scanCalls name (before @ [ver]))"
    by (simp add: CreateLayer_def ListLayerVersions_def)
qed

theorem CreateLayer_scan_failures_witness:
  "CreateLayer worldListFails dep0 app0 info0 ''web-lib'' ''lib.zip'' [] =
     CreateLayer (worldListFails\<lparr>lambda_ListLayerVersions := \<lambda>_ _. Inr \<lparr>LayerVersions = []\<rparr>\<rparr>)
       dep0 app0 info0 ''web-lib'' ''lib.zip'' [] \<and>
   (\<exists>rest. snd (CreateLayer worldListFails dep0 app0 info0 ''web-lib'' ''lib.zip'' []) =
      Call_ListLayerVersions ''web-lib'' # Call_HeadObject ''bkt'' ''web-b1-web-lib.zip'' # rest) \<and>
   CreateLayer worldGetFails dep0 app0 info0 ''web-lib'' ''lib.zip'' [] =
     (Inl (Err ''AccessDenied''),
      [Call_ListLayerVersions ''web-lib'', Call_GetLayerVersion ''web-lib'' 2,
       Call_GetLayerVersion ''web-lib'' 1])"
proof -
  have l: "lambda_ListLayerVersions worldListFails [] ''web-lib'' = Inl (Err ''throttled'')"
    by (simp add: base_defs worldListFails_def)
  have s: "LambdaCodeSha256 worldListFails ''lib.zip'' = Inr ''PK-zip-bytes''"
    by (simp add: LambdaCodeSha256_def HashFile_def base_defs worldListFails_def)
  have f: "os_Open worldListFails ''lib.zip'' = Inr ''lib.zip''"
    "file_Stat worldListFails ''lib.zip'' = Inr 12"
    by (simp_all add: base_defs worldListFails_def)
  note a = CreateLayer_scan_failures [of worldListFails "[]" "''web-lib''" "Err ''throttled''"
      dep0 app0 info0 "''lib.zip''" "''PK-zip-bytes''" "''lib.zip''" 12]
  have s2: "LambdaCodeSha256 worldGetFails ''lib.zip'' = Inr ''PK-zip-bytes''"
    by (simp add: LambdaCodeSha256_def HashFile_def base_defs worldGetFails_def)
  have l2: "lambda_ListLayerVersions worldGetFails [] ''web-lib'' =
      Inr \<lparr>LayerVersions = [\<lparr>Version = 2\<rparr>, \<lparr>Version = 1\<rparr>]\<rparr>"
    by (simp add: base_defs worldGetFails_def)
  have d2: "LayerVersions \<lparr>LayerVersions = [\<lparr>Version = 2\<rparr>, \<lparr>Version = 1\<rparr>]\<rparr> =
      [\<lparr>Version = 2\<rparr>] @ \<lparr>Version = 1\<rparr> # []"
    by simp
  have o2: "\<forall>j<length [\<lparr>Version = 2\<rparr>]. \<exists>out.
        lambda_GetLayerVersion worldGetFails
          ([] @ Call_ListLayerVersions ''web-lib'' # scanCalls ''web-lib'' (take j [\<lparr>Version = 2\<rparr>]))
          ''web-lib'' (Version ([\<lparr>Version = 2\<rparr>] ! j)) = Inr out \<and>
        ContentCodeSha256 out \<noteq> ''PK-zip-bytes''"
    by (simp add: base_defs worldGetFails_def)
  have g2: "lambda_GetLayerVersion worldGetFails
      ([] @ Call_ListLayerVersions ''web-lib'' # scanCalls ''web-lib'' [\<lparr>Version = 2\<rparr>])
      ''web-lib'' (Version \<lparr>Version = 1\<rparr>) = Inl (Err ''AccessDenied'')"
    by (simp add: base_defs worldGetFails_def)
  note b = CreateLayer_scan_failures [of worldGetFails "[]" "''web-lib''" _
      dep0 app0 info0 "''lib.zip''" "''PK-zip-bytes''" _ _
      "\<lparr>LayerVersions = [\<lparr>Version = 2\<rparr>, \<lparr>Version = 1\<rparr>]\<rparr>" "[\<lparr>Version = 2\<rparr>]"
      "\<lparr>Version = 1\<rparr>" "[]" "Err ''AccessDenied''"]
  from a l s f have 1: "CreateLayer worldListFails dep0 app0 info0 ''web-lib'' ''lib.zip'' [] =
     CreateLayer (worldListFails\<lparr>lambda_ListLayerVersions := \<lambda>_ _. Inr \<lparr>LayerVersions = []\<rparr>\<rparr>)
       dep0 app0 info0 ''web-lib'' ''lib.zip'' []"
    by blast
  from a l s f have 2: "\<exists>rest. snd (CreateLayer worldListFails dep0 app0 info0 ''web-lib'' ''lib.zip'' []) =
      [] @ Call_ListLayerVersions ''web-lib'' #
        Call_HeadObject (Bucket (config dep0))
          (App app0 @ ''-'' @ BuildId info0 @ ''-'' @ ''web-lib'' @ ''.zip'') # rest"
    by blast
  from b s2 l2 d2 o2 g2 have 3: "CreateLayer worldGetFails dep0 app0 info0 ''web-lib'' ''lib.zip'' [] =
     (Inl (Err ''AccessDenied''),
      [] @ Call_ListLayerVersions ''web-lib'' # scanCalls ''web-lib'' ([\<lparr>Version = 2\<rparr>] @ [\<lparr>Version = 1\<rparr>]))"
    by blast
  from 1 2 3 show ?thesis by (simp add: dep0_def app0_def info0_def)
qed

text \<open>
  C7. Two calls of \<open>CreateLayer\<close> for the same layer name, on files with the same
  bytes; the deployer, the application and the build identifier of the second call are
  arbitrary. The first call returned the reference \<open>arn\<close>. At the time of the second
  call the platform lists the versions of the layer, the version with reference
  \<open>arn\<close> is among them with the digest of these bytes as its stored digest, and
  every version listed ahead of it is fetched and stores another digest. Then the
  second call, sent at the history \<open>later\<close>, returns \<open>arn\<close>, and the only requests it sends are the listing and the
  fetches up to that version: no upload, no publish.
\<close>

theorem CreateLayer_reuses_matching_version:
  assumes first: "CreateLayer env d app info name path tr = (Inr arn, tr')"
    and content: "fs_ReadFile env path = Inr content" "fs_ReadFile env path' = Inr content"
    and listed: "lambda_ListLayerVersions env later name = Inr l"
      "LayerVersions l = before @ ver # after"
    and others: "\<forall>j<length before. \<exists>out.
        lambda_GetLayerVersion env
          (later @ Call_ListLayerVersions name # scanCalls name (take j before)) name
          (Version (before ! j)) = Inr out \<and>
        ContentCodeSha256 out \<noteq> base64_EncodeToString env (digest env content)"
    and stored: "lambda_GetLayerVersion env
          (later @ Call_ListLayerVersions name # scanCalls name before) name (Version ver) =
        Inr out"
      "ContentCodeSha256 out = base64_EncodeToString env (digest env content)"
      "LayerVersionArn out = arn"
  shows "CreateLayer env d' app' info' name path' later =
           (Inr arn, later @ Call_ListLayerVersions name # scanCalls name (before @ [ver]))"
proof -
  let ?s = "base64_EncodeToString env (digest env content)"
  have s: "LambdaCodeSha256 env path' = Inr ?s"
    using content by (simp add: LambdaCodeSha256_def HashFile_def)
  have "scanVersions env name ?s (before @ ver # after) (later @ [Call_ListLayerVersions name]) =
         (Some (Inr (LayerVersionArn out)),
          (later @ [Call_ListLayerVersions name]) @ scanCalls name (before @ [ver]))"
    by (rule scanVersions_match) (use others stored in simp_all)
  with s listed stored show ?thesis
    by (simp add: CreateLayer_def ListLayerVersions_def)
qed

theorem CreateLayer_reuses_matching_version_witness:
  "CreateLayer worldLayers dep0 app0 info0 ''web-lib'' ''build1/lib.zip'' [] =
     (Inr ''arn:web-lib:1'', traceFirstPublish) \<and>
   CreateLayer worldLayers dep0 app0 info1 ''web-lib'' ''build2/lib.zip'' traceFirstPublish =
     (Inr ''arn:web-lib:1'',
      traceFirstPublish @ [Call_ListLayerVersions ''web-lib'', Call_GetLayerVersion ''web-lib'' 1])"
proof -
  have first: "CreateLayer worldLayers dep0 app0 info0 ''web-lib'' ''build1/lib.zip'' [] =
     (Inr ''arn:web-lib:1'', traceFirstPublish)"
    by (simp add: CreateLayer_def LambdaCodeSha256_def HashFile_def Let_def base_defs
        worldLayers_def published_def traceFirstPublish_def request_defs)
  have content: "fs_ReadFile worldLayers ''build1/lib.zip'' = Inr ''PK-zip-bytes''"
    "fs_ReadFile worldLayers ''build2/lib.zip'' = Inr ''PK-zip-bytes''"
    by (simp_all add: base_defs worldLayers_def)
  have listed: "lambda_ListLayerVersions worldLayers traceFirstPublish ''web-lib'' =
      Inr \<lparr>LayerVersions = [\<lparr>Version = 1\<rparr>]\<rparr>"
    "LayerVersions \<lparr>LayerVersions = [\<lparr>Version = 1\<rparr>]\<rparr> = [] @ \<lparr>Version = 1\<rparr> # []"
    by (simp_all add: base_defs worldLayers_def published_def traceFirstPublish_def)
  have others: "\<forall>j<length ([] :: LayerVersionsListItem list). \<exists>out.
        lambda_GetLayerVersion worldLayers
          (traceFirstPublish @ Call_ListLayerVersions ''web-lib'' #
             scanCalls ''web-lib'' (take j [])) ''web-lib''
          (Version (([] :: LayerVersionsListItem list) ! j)) = Inr out \<and>
        ContentCodeSha256 out \<noteq>
          base64_EncodeToString worldLayers (digest worldLayers ''PK-zip-bytes'')"
    by simp
  have stored: "lambda_GetLayerVersion worldLayers
          (traceFirstPublish @ Call_ListLayerVersions ''web-lib'' # scanCalls ''web-lib'' [])
          ''web-lib'' (Version \<lparr>Version = 1\<rparr>) =
        Inr \<lparr>LayerArn = ''arn:web-lib'', LayerVersionArn = ''arn:web-lib:1'',
             ContentCodeSha256 = ''PK-zip-bytes''\<rparr>"
    "ContentCodeSha256 \<lparr>LayerArn = ''arn:web-lib'', LayerVersionArn = ''arn:web-lib:1'',
             ContentCodeSha256 = ''PK-zip-bytes''\<rparr> =
       base64_EncodeToString worldLayers (digest worldLayers ''PK-zip-bytes'')"
    "LayerVersionArn \<lparr>LayerArn = ''arn:web-lib'', LayerVersionArn = ''arn:web-lib:1'',
             ContentCodeSha256 = ''PK-zip-bytes''\<rparr> = ''arn:web-lib:1''"
    by (simp_all add: base_defs worldLayers_def published_def traceFirstPublish_def)
  from CreateLayer_reuses_matching_version [OF first content listed others stored,
      where d' = dep0 and app' = app0 and info' = info1]
  have "CreateLayer worldLayers dep0 app0 info1 ''web-lib'' ''build2/lib.zip'' traceFirstPublish =
     (Inr ''arn:web-lib:1'',
      traceFirstPublish @ Call_ListLayerVersions ''web-lib'' #
        scanCalls ''web-lib'' ([] @ [\<lparr>Version = 1\<rparr>]))" .
  with first show ?thesis by simp
qed

section \<open>Creating or updating the function: properties\<close>

text \<open>Every operation only appends to the trace.\<close>

lemma scanVersions_extends:
  "\<exists>ext. snd (scanVersions env name s vers tr) = tr @ ext"
proof (induction vers arbitrary: tr)
  case Nil
  then show ?case by simp
next
  case (Cons v vers)
  obtain ext where "snd (scanVersions env name s vers (tr @ [Call_GetLayerVersion name (Version v)])) =
      (tr @ [Call_GetLayerVersion name (Version v)]) @ ext"
    using Cons.IH by blast
  then show ?case
    by (simp add: GetLayerVersion_def split: sum.splits)
qed

lemma CreateLayer_extends:
  "\<exists>ext. snd (CreateLayer env d app info name path tr) = tr @ ext"
proof (cases "LambdaCodeSha256 env path")
  case (Inl e)
  then show ?thesis by (simp add: CreateLayer_def)
next
  case (Inr s)
  let ?tr1 = "tr @ [Call_ListLayerVersions name]"
  obtain r trP where scan:
    "(case lambda_ListLayerVersions env tr name of
        Inr l \<Rightarrow> scanVersions env name s (LayerVersions l) ?tr1
      | Inl _ \<Rightarrow> (None, ?tr1)) = (r, trP)"
    by (cases "case lambda_ListLayerVersions env tr name of
        Inr l \<Rightarrow> scanVersions env name s (LayerVersions l) ?tr1
      | Inl _ \<Rightarrow> (None, ?tr1)") blast
  have "\<exists>ext. trP = ?tr1 @ ext"
  proof (cases "lambda_ListLayerVersions env tr name")
    case (Inl e)
    with scan show ?thesis by simp
  next
    case (Inr l)
    with scan scanVersions_extends [of env name s "LayerVersions l" ?tr1]
    show ?thesis by auto
  qed
  then obtain ext where trP: "trP = tr @ Call_ListLayerVersions name # ext" by auto
  show ?thesis
  proof (cases r)
    case (Some res)
    with Inr scan trP show ?thesis
      by (simp add: CreateLayer_def ListLayerVersions_def)
  next
    case None
    with Inr scan trP show ?thesis
      by (simp add: CreateLayer_def ListLayerVersions_def HeadObject_def Upload_def
          PublishLayerVersion_def Let_def split: sum.splits)
  qed
qed

lemma CreateFunction_update_extends:
  "\<exists>ext. snd (CreateFunction_update env d app info key preLayer libLayer fnInfo tr) = tr @ ext"
  by (simp add: CreateFunction_update_def UpdateFunctionConfiguration_def
      UpdateFunctionCode_def PublishVersion_def split: sum.splits)

lemma CreateFunction_create_extends:
  "\<exists>ext. snd (CreateFunction_create env d app info key preLayer libLayer tr) = tr @ ext"
  by (simp add: CreateFunction_create_def CreateFunction_request_def PublishVersion_def
      split: sum.splits)

lemma CreateFunction_after_layers:
  assumes "os_Open env (AppZip info) = Inr f" "file_Stat env f = Inr n"
    and "s3manager_Upload env tr f (Bucket (config d))
           (App app @ ''-'' @ BuildId info @ ''-app.zip'') = Inr u"
    and "CreatePreLayer env d app info (PreZip info)
           (tr @ [Call_Upload f (Bucket (config d))
                    (App app @ ''-'' @ BuildId info @ ''-app.zip'')]) = (Inr preLayer, trP)"
    and "CreateLibraryLayer env d app info (LibZip info) trP = (Inr libLayer, trL)"
  shows "\<exists>rest. snd (CreateFunction env d app info tr) = trL @ Call_GetFunction (App app) # rest"
proof (cases "lambda_GetFunction env trL (App app)")
  case (Inl e)
  with assms CreateFunction_create_extends [of env d app info
      "App app @ ''-'' @ BuildId info @ ''-app.zip''" preLayer libLayer
      "trL @ [Call_GetFunction (App app)]"]
  show ?thesis
    by (auto simp add: CreateFunction_def Upload_def GetFunction_def)
next
  case (Inr fnInfo)
  with assms CreateFunction_update_extends [of env d app info
      "App app @ ''-'' @ BuildId info @ ''-app.zip''" preLayer libLayer fnInfo
      "trL @ [Call_GetFunction (App app)]"]
  show ?thesis
    by (auto simp add: CreateFunction_def Upload_def GetFunction_def)
qed

lemma CreateFunction_upload_first:
  assumes "os_Open env (AppZip info) = Inr f" "file_Stat env f = Inr n"
  shows "\<exists>rest. snd (CreateFunction env d app info tr) =
           tr @ Call_Upload f (Bucket (config d)) (App app @ ''-'' @ BuildId info @ ''-app.zip'') #
             rest"
proof -
  let ?key = "App app @ ''-'' @ BuildId info @ ''-app.zip''"
  let ?up = "Call_Upload f (Bucket (config d)) ?key"
  show ?thesis
  proof (cases "s3manager_Upload env tr f (Bucket (config d)) ?key")
    case (Inl e)
    with assms show ?thesis by (simp add: CreateFunction_def Upload_def)
  next
    case (Inr u)
    obtain rp trP where pre: "CreatePreLayer env d app info (PreZip info) (tr @ [?up]) = (rp, trP)"
      by (cases "CreatePreLayer env d app info (PreZip info) (tr @ [?up])") blast
    from CreateLayer_extends [of env d app info "App app @ ''-pre''" "PreZip info" "tr @ [?up]"] pre
    obtain e1 where trP: "trP = tr @ ?up # e1"
      by (auto simp: CreatePreLayer_def)
    show ?thesis
    proof (cases rp)
      case (Inl e)
      with assms Inr pre trP show ?thesis by (simp add: CreateFunction_def Upload_def)
    next
      case rpr: (Inr preLayer)
      obtain rl trL where lib: "CreateLibraryLayer env d app info (LibZip info) trP = (rl, trL)"
        by (cases "CreateLibraryLayer env d app info (LibZip info) trP") blast
      from CreateLayer_extends [of env d app info "App app @ ''-lib''" "LibZip info" trP] lib trP
      obtain e2 where trL: "trL = tr @ ?up # e2"
        by (auto simp: CreateLibraryLayer_def)
      show ?thesis
      proof (cases rl)
        case (Inl e)
        with assms Inr pre rpr lib trL show ?thesis by (simp add: CreateFunction_def Upload_def)
      next
        case rlr: (Inr libLayer)
        from CreateFunction_after_layers [OF assms Inr pre [unfolded rpr] lib [unfolded rlr]] trL
        show ?thesis by auto
      qed
    qed
  qed
qed

text \<open>
  C3. The claim: both layer publishes complete before the application package is
  uploaded. In the run below the file of the pre layer cannot be read: the package has
  been uploaded, and no layer publish has completed.
\<close>

theorem CreateFunction_uploads_before_layers:
  "CreateFunction worldPreFails dep0 app0 info0 [] =
     (Inl (Err ''open pre.zip: no such file''),
      [Call_Upload ''app.zip'' ''bkt'' ''web-b1-app.zip''])"
  by (simp add: CreateFunction_def CreateLayer_def LambdaCodeSha256_def HashFile_def Let_def
      CreatePreLayer_def base_defs worldPreFails_def request_defs)

text \<open>
  C3, as the code has it. The package being opened, its upload is the first request of
  \<open>CreateFunction\<close>, whatever the bucket and the layers hold: no existence check, no
  comparison of content. The layers come after it: when the upload fails nothing
  else is sent; the pre layer is published after the upload, the lib layer after the
  pre layer, each only if the step before returned no error; and the function is
  looked up once both have returned a reference.
\<close>

theorem CreateFunction_package_first:
  "(os_Open env (AppZip info) = Inr f \<longrightarrow> file_Stat env f = Inr n \<longrightarrow>
      (\<exists>rest. snd (CreateFunction env d app info tr) =
         tr @ Call_Upload f (Bucket (config d)) (App app @ ''-'' @ BuildId info @ ''-app.zip'') #
           rest)) \<and>
   (os_Open env (AppZip info) = Inr f \<longrightarrow> file_Stat env f = Inr n \<longrightarrow>
    s3manager_Upload env tr f (Bucket (config d))
      (App app @ ''-'' @ BuildId info @ ''-app.zip'') = Inl e \<longrightarrow>
      CreateFunction env d app info tr =
        (Inl e, tr @ [Call_Upload f (Bucket (config d))
                        (App app @ ''-'' @ BuildId info @ ''-app.zip'')])) \<and>
   (os_Open env (AppZip info) = Inr f \<longrightarrow> file_Stat env f = Inr n \<longrightarrow>
    s3manager_Upload env tr f (Bucket (config d))
      (App app @ ''-'' @ BuildId info @ ''-app.zip'') = Inr u \<longrightarrow>
    CreatePreLayer env d app info (PreZip info)
      (tr @ [Call_Upload f (Bucket (config d))
               (App app @ ''-'' @ BuildId info @ ''-app.zip'')]) = (Inl e, trP) \<longrightarrow>
      CreateFunction env d app info tr = (Inl e, trP)) \<and>
   (os_Open env (AppZip info) = Inr f \<longrightarrow> file_Stat env f = Inr n \<longrightarrow>
    s3manager_Upload env tr f (Bucket (config d))
      (App app @ ''-'' @ BuildId info @ ''-app.zip'') = Inr u \<longrightarrow>
    CreatePreLayer env d app info (PreZip info)
      (tr @ [Call_Upload f (Bucket (config d))
               (App app @ ''-'' @ BuildId info @ ''-app.zip'')]) = (Inr preLayer, trP) \<longrightarrow>
    CreateLibraryLayer env d app info (LibZip info) trP = (Inl e, trL) \<longrightarrow>
      CreateFunction env d app info tr = (Inl e, trL)) \<and>
   (os_Open env (AppZip info) = Inr f \<longrightarrow> file_Stat env f = Inr n \<longrightarrow>
    s3manager_Upload env tr f (Bucket (config d))
      (App app @ ''-'' @ BuildId info @ ''-app.zip'') = Inr u \<longrightarrow>
    CreatePreLayer env d app info (PreZip info)
      (tr @ [Call_Upload f (Bucket (config d))
               (App app @ ''-'' @ BuildId info @ ''-app.zip'')]) = (Inr preLayer, trP) \<longrightarrow>
    CreateLibraryLayer env d app info (LibZip info) trP = (Inr libLayer, trL) \<longrightarrow>
      (\<exists>rest. snd (CreateFunction env d app info tr) =
         trL @ Call_GetFunction (App app) # rest))"
proof (intro conjI impI)
  assume "os_Open env (AppZip info) = Inr f" "file_Stat env f = Inr n"
  then show "\<exists>rest. snd (CreateFunction env d app info tr) =
         tr @ Call_Upload f (Bucket (config d)) (App app @ ''-'' @ BuildId info @ ''-app.zip'') #
           rest"
    by (rule CreateFunction_upload_first)
next
  assume "os_Open env (AppZip info) = Inr f" "file_Stat env f = Inr n"
    "s3manager_Upload env tr f (Bucket (config d))
      (App app @ ''-'' @ BuildId info @ ''-app.zip'') = Inl e"
  then show "CreateFunction env d app info tr =
        (Inl e, tr @ [Call_Upload f (Bucket (config d))
                        (App app @ ''-'' @ BuildId info @ ''-app.zip'')])"
    by (simp add: CreateFunction_def Upload_def)
next
  assume "os_Open env (AppZip info) = Inr f" "file_Stat env f = Inr n"
    "s3manager_Upload env tr f (Bucket (config d))
      (App app @ ''-'' @ BuildId info @ ''-app.zip'') = Inr u"
    "CreatePreLayer env d app info (PreZip info)
      (tr @ [Call_Upload f (Bucket (config d))
               (App app @ ''-'' @ BuildId info @ ''-app.zip'')]) = (Inl e, trP)"
  then show "CreateFunction env d app info tr = (Inl e, trP)"
    by (simp add: CreateFunction_def Upload_def)
next
  assume "os_Open env (AppZip info) = Inr f" "file_Stat env f = Inr n"
    "s3manager_Upload env tr f (Bucket (config d))
      (App app @ ''-'' @ BuildId info @ ''-app.zip'') = Inr u"
    "CreatePreLayer env d app info (PreZip info)
      (tr @ [Call_Upload f (Bucket (config d))
               (App app @ ''-'' @ BuildId info @ ''-app.zip'')]) = (Inr preLayer, trP)"
    "CreateLibraryLayer env d app info (LibZip info) trP = (Inl e, trL)"
  then show "CreateFunction env d app info tr = (Inl e, trL)"
    by (simp add: CreateFunction_def Upload_def)
next
  assume "os_Open env (AppZip info) = Inr f" "file_Stat env f = Inr n"
    "s3manager_Upload env tr f (Bucket (config d))
      (App app @ ''-'' @ BuildId info @ ''-app.zip'') = Inr u"
    "CreatePreLayer env d app info (PreZip info)
      (tr @ [Call_Upload f (Bucket (config d))
               (App app @ ''-'' @ BuildId info @ ''-app.zip'')]) = (Inr preLayer, trP)"
    "CreateLibraryLayer env d app info (LibZip info) trP = (Inr libLayer, trL)"
  then show "\<exists>rest. snd (CreateFunction env d app info tr) =
         trL @ Call_GetFunction (App app) # rest"
    by (rule CreateFunction_after_layers)
qed


theorem CreateFunction_package_first_witness:
  "(\<exists>rest. snd (CreateFunction world0 dep0 app0 info0 []) =
      Call_Upload ''app.zip'' ''bkt'' ''web-b1-app.zip'' # rest) \<and>
   CreateFunction worldUploadFails dep0 app0 info0 [] =
     (Inl (Err ''upload failed''), [Call_Upload ''app.zip'' ''bkt'' ''web-b1-app.zip'']) \<and>
   CreateFunction worldPreFails dep0 app0 info0 [] =
     (Inl (Err ''open pre.zip: no such file''),
      [Call_Upload ''app.zip'' ''bkt'' ''web-b1-app.zip'']) \<and>
   CreateFunction worldLibFails dep0 app0 info0 [] =
     (Inl (Err ''open lib.zip: no such file''), tracePre0) \<and>
   (\<exists>rest. snd (CreateFunction world0 dep0 app0 info0 []) =
      traceLayers0 @ Call_GetFunction ''web'' # rest)"
proof -
  let ?up = "Call_Upload ''app.zip'' ''bkt'' ''web-b1-app.zip''"
  note layer_defs = CreateLayer_def LambdaCodeSha256_def HashFile_def Let_def
    CreatePreLayer_def CreateLibraryLayer_def request_defs tracePre0_def traceLayers0_def
  have 1: "\<exists>rest. snd (CreateFunction world0 dep0 app0 info0 []) = [] @ ?up # rest"
    using CreateFunction_package_first [where env = world0 and info = info0
        and f = "''app.zip''" and n = 12 and d = dep0 and app = app0 and tr = "[]"]
    by (simp add: base_defs)
  have 2: "CreateFunction worldUploadFails dep0 app0 info0 [] =
      (Inl (Err ''upload failed''), [] @ [?up])"
    using CreateFunction_package_first [where env = worldUploadFails and info = info0
        and f = "''app.zip''" and n = 12 and d = dep0 and app = app0 and tr = "[]"
        and e = "Err ''upload failed''"]
    by (simp add: base_defs worldUploadFails_def)
  have 3: "CreateFunction worldPreFails dep0 app0 info0 [] =
      (Inl (Err ''open pre.zip: no such file''), [?up])"
    using CreateFunction_package_first [where env = worldPreFails and info = info0
        and f = "''app.zip''" and n = 12 and d = dep0 and app = app0 and tr = "[]"
        and u = "()" and e = "Err ''open pre.zip: no such file''" and trP = "[?up]"]
    by (simp add: base_defs worldPreFails_def layer_defs)
  have 4: "CreateFunction worldLibFails dep0 app0 info0 [] =
      (Inl (Err ''open lib.zip: no such file''), tracePre0)"
    using CreateFunction_package_first [where env = worldLibFails and info = info0
        and f = "''app.zip''" and n = 12 and d = dep0 and app = app0 and tr = "[]"
        and u = "()" and e = "Err ''open lib.zip: no such file''" and trP = tracePre0
        and preLayer = "''arn:web-pre:1''" and trL = tracePre0]
    by (simp add: base_defs worldLibFails_def layer_defs)
  have 5: "\<exists>rest. snd (CreateFunction world0 dep0 app0 info0 []) =
      traceLayers0 @ Call_GetFunction (App app0) # rest"
    using CreateFunction_package_first [where env = world0 and info = info0
        and f = "''app.zip''" and n = 12 and d = dep0 and app = app0 and tr = "[]"
        and u = "()" and trP = tracePre0
        and preLayer = "''arn:web-pre:1''" and trL = traceLayers0
        and libLayer = "''arn:web-lib:1''"]
    by (simp add: base_defs layer_defs)
  from 1 2 3 4 5 show ?thesis by (simp add: app0_def)
qed

text \<open>The value of \<open>newLayers\<close> after the loop over the attached layers.\<close>

lemma newLayers_iff:
  "newLayers layers preLayer libLayer \<longleftrightarrow>
     (\<exists>layer\<in>set layers. Arn layer \<noteq> preLayer \<and> Arn layer \<noteq> libLayer)"
  by (induction layers) auto

lemma CreateFunction_update_trace:
  "snd (CreateFunction_update env d app info key preLayer libLayer fnInfo tr) =
     tr @
     (if newLayers (fc_Layers (Configuration fnInfo)) preLayer libLayer
      then [Call_UpdateFunctionConfiguration \<lparr>ufc_FunctionName = App app, ufc_Layers = [preLayer, libLayer],
           ufc_Handler = Some ''app.handler'', ufc_Environment = None,
           ufc_Role = Some (roleArn d), ufc_Timeout = Some DefaultTimeout,
           ufc_MemorySize = Some DefaultMemory, ufc_Runtime = Some (Runtime info)\<rparr>]
      else []) @
     (if newLayers (fc_Layers (Configuration fnInfo)) preLayer libLayer \<and>
         isl (lambda_UpdateFunctionConfiguration env tr \<lparr>ufc_FunctionName = App app, ufc_Layers = [preLayer, libLayer],
           ufc_Handler = Some ''app.handler'', ufc_Environment = None,
           ufc_Role = Some (roleArn d), ufc_Timeout = Some DefaultTimeout,
           ufc_MemorySize = Some DefaultMemory, ufc_Runtime = Some (Runtime info)\<rparr>)
      then []
      else Call_UpdateFunctionCode (App app) (Bucket (config d)) key #
        (case lambda_UpdateFunctionCode env
                (tr @ (if newLayers (fc_Layers (Configuration fnInfo)) preLayer libLayer
                       then [Call_UpdateFunctionConfiguration \<lparr>ufc_FunctionName = App app, ufc_Layers = [preLayer, libLayer],
           ufc_Handler = Some ''app.handler'', ufc_Environment = None,
           ufc_Role = Some (roleArn d), ufc_Timeout = Some DefaultTimeout,
           ufc_MemorySize = Some DefaultMemory, ufc_Runtime = Some (Runtime info)\<rparr>]
                       else []))
                (App app) (Bucket (config d)) key of
           Inl _ \<Rightarrow> []
         | Inr funcCfg \<Rightarrow> [Call_PublishVersion (Some (fc_CodeSha256 funcCfg)) (App app)]))"
  by (simp add: CreateFunction_update_def UpdateFunctionConfiguration_def
      UpdateFunctionCode_def PublishVersion_def split: sum.splits prod.splits)


lemma CreateFunction_reaches_update:
  assumes "os_Open env (AppZip info) = Inr f" "file_Stat env f = Inr n"
    and "s3manager_Upload env tr f (Bucket (config d)) (App app @ ''-'' @ BuildId info @ ''-app.zip'') = Inr u"
    and "CreatePreLayer env d app info (PreZip info)
           (tr @ [Call_Upload f (Bucket (config d)) (App app @ ''-'' @ BuildId info @ ''-app.zip'')]) = (Inr preLayer, tr2)"
    and "CreateLibraryLayer env d app info (LibZip info) tr2 = (Inr libLayer, tr3)"
    and "lambda_GetFunction env tr3 (App app) = Inr fnInfo"
  shows "CreateFunction env d app info tr =
         CreateFunction_update env d app info (App app @ ''-'' @ BuildId info @ ''-app.zip'')
           preLayer libLayer fnInfo (tr3 @ [Call_GetFunction (App app)])"
  using assms by (simp add: CreateFunction_def Upload_def GetFunction_def)

text \<open>
  C2. The claim: on the update path \<open>UpdateFunctionConfiguration\<close> is invoked whenever
  the set of attached layers differs from the pair of published layers, also when the
  attached set is a strict subset of the pair. In the run below the function exists
  with no layer attached, the published pair is \<open>arn:web-pre:1\<close>, \<open>arn:web-lib:1\<close>, every
  request succeeds, and no \<open>UpdateFunctionConfiguration\<close> is sent: after
  \<open>GetFunction\<close> come \<open>UpdateFunctionCode\<close> and \<open>PublishVersion\<close> only.
\<close>

theorem CreateFunction_no_update_without_attached_layers:
  "fc_Layers (fnConfig0\<lparr>fc_Layers := []\<rparr>) = [] \<and>
   CreateFunction worldNoLayers dep0 app0 info0 [] =
     (Inr ''arn:fn:2'',
      traceLayers0 @
      [Call_GetFunction ''web'',
       Call_UpdateFunctionCode ''web'' ''bkt'' ''web-b1-app.zip'',
       Call_PublishVersion (Some ''sha-new'') ''web''])"
  by (simp add: CreateFunction_def CreateFunction_update_def CreateLayer_def
      LambdaCodeSha256_def HashFile_def Let_def CreatePreLayer_def CreateLibraryLayer_def
      base_defs worldNoLayers_def worldDeployed_def fnConfig0_def request_defs
      tracePre0_def traceLayers0_def)

text \<open>
  C2, as the code has it. On the update path (the package uploaded, both layer
  references \<open>preLayer\<close> and \<open>libLayer\<close> obtained, \<open>GetFunction\<close> answered with
  \<open>fnInfo\<close>), the requests sent after \<open>GetFunction\<close> are: \<open>UpdateFunctionConfiguration\<close>
  if and only if some attached layer reference is neither \<open>preLayer\<close> nor \<open>libLayer\<close>;
  then \<open>UpdateFunctionCode\<close>, unless that configuration update was sent and failed;
  then \<open>PublishVersion\<close>, unless \<open>UpdateFunctionCode\<close> was not sent or failed.
\<close>

theorem CreateFunction_update_requests:
  assumes "os_Open env (AppZip info) = Inr f" "file_Stat env f = Inr n"
    and "s3manager_Upload env tr f (Bucket (config d))
           (App app @ ''-'' @ BuildId info @ ''-app.zip'') = Inr u"
    and "CreatePreLayer env d app info (PreZip info)
           (tr @ [Call_Upload f (Bucket (config d))
                    (App app @ ''-'' @ BuildId info @ ''-app.zip'')]) = (Inr preLayer, trP)"
    and "CreateLibraryLayer env d app info (LibZip info) trP = (Inr libLayer, trL)"
    and "lambda_GetFunction env trL (App app) = Inr fnInfo"
  shows "let trG = trL @ [Call_GetFunction (App app)];
             changed = (\<exists>layer\<in>set (fc_Layers (Configuration fnInfo)).
                          Arn layer \<noteq> preLayer \<and> Arn layer \<noteq> libLayer);
             inp = \<lparr>ufc_FunctionName = App app,
                    ufc_Layers = [preLayer, libLayer],
                    ufc_Handler = Some ''app.handler'',
                    ufc_Environment = None,
                    ufc_Role = Some (roleArn d),
                    ufc_Timeout = Some DefaultTimeout,
                    ufc_MemorySize = Some DefaultMemory,
                    ufc_Runtime = Some (Runtime info)\<rparr>;
             key = App app @ ''-'' @ BuildId info @ ''-app.zip'';
             cfgCalls = (if changed then [Call_UpdateFunctionConfiguration inp] else []);
             codeCalls = (if changed \<and> isl (lambda_UpdateFunctionConfiguration env trG inp)
                          then []
                          else [Call_UpdateFunctionCode (App app) (Bucket (config d)) key]);
             pubCalls = (if codeCalls = [] then []
                         else case lambda_UpdateFunctionCode env (trG @ cfgCalls) (App app)
                                     (Bucket (config d)) key of
                                Inl _ \<Rightarrow> []
                              | Inr funcCfg \<Rightarrow>
                                  [Call_PublishVersion (Some (fc_CodeSha256 funcCfg)) (App app)])
         in snd (CreateFunction env d app info tr) = trG @ cfgCalls @ codeCalls @ pubCalls"
  unfolding CreateFunction_reaches_update [OF assms] CreateFunction_update_trace Let_def
    newLayers_iff
  by (simp split: sum.splits)

theorem CreateFunction_update_requests_witness:
  "snd (CreateFunction worldDeployed dep0 app0 info0 []) =
     traceLayers0 @
     [Call_GetFunction ''web'',
      Call_UpdateFunctionConfiguration
        \<lparr>ufc_FunctionName = ''web'',
         ufc_Layers = [''arn:web-pre:1'', ''arn:web-lib:1''],
         ufc_Handler = Some ''app.handler'',
         ufc_Environment = None,
         ufc_Role = Some ''arn:role'',
         ufc_Timeout = Some 60,
         ufc_MemorySize = Some 256,
         ufc_Runtime = Some ''ruby2.5''\<rparr>,
      Call_UpdateFunctionCode ''web'' ''bkt'' ''web-b1-app.zip'',
      Call_PublishVersion (Some ''sha-new'') ''web'']"
proof -
  note layer_defs = CreateLayer_def LambdaCodeSha256_def HashFile_def Let_def
    CreatePreLayer_def CreateLibraryLayer_def request_defs tracePre0_def traceLayers0_def
  have op: "os_Open worldDeployed (AppZip info0) = Inr ''app.zip''"
    "file_Stat worldDeployed ''app.zip'' = Inr 12"
    by (simp_all add: base_defs worldDeployed_def)
  have up: "s3manager_Upload worldDeployed [] ''app.zip'' (Bucket (config dep0))
      (App app0 @ ''-'' @ BuildId info0 @ ''-app.zip'') = Inr ()"
    by (simp add: base_defs worldDeployed_def)
  have pre: "CreatePreLayer worldDeployed dep0 app0 info0 (PreZip info0)
      ([] @ [Call_Upload ''app.zip'' (Bucket (config dep0))
               (App app0 @ ''-'' @ BuildId info0 @ ''-app.zip'')]) =
      (Inr ''arn:web-pre:1'', tracePre0)"
    by (simp add: base_defs worldDeployed_def layer_defs)
  have lib: "CreateLibraryLayer worldDeployed dep0 app0 info0 (LibZip info0) tracePre0 =
      (Inr ''arn:web-lib:1'', traceLayers0)"
    by (simp add: base_defs worldDeployed_def layer_defs)
  have get: "lambda_GetFunction worldDeployed traceLayers0 (App app0) =
      Inr \<lparr>Configuration = fnConfig0\<rparr>"
    by (simp add: base_defs worldDeployed_def)
  from CreateFunction_update_requests [OF op up pre lib get]
  show ?thesis
    by (simp add: Let_def base_defs worldDeployed_def fnConfig0_def DefaultTimeout_def
        DefaultMemory_def)
qed

section \<open>Configuration variables: properties\<close>

text \<open>
  C4. The claim: when the variable is absent, also when the function has no
  environment at all, \<open>ConfigGet\<close> fails with \<open>ErrNoSuchVariable\<close> and does not crash.
  At the input below \<open>GetFunction\<close> succeeds with a configuration whose \<open>Environment\<close>
  is nil (\<open>fnConfig0\<close>), and \<open>ConfigGet\<close> panics on \<open>cur.Environment.Variables\<close>.
\<close>

theorem ConfigGet_panics_without_environment:
  "lambda_GetFunction worldDeployed [] ''web'' = Inr \<lparr>Configuration = fnConfig0\<rparr> \<and>
   fc_Environment fnConfig0 = None \<and>
   ConfigGet worldDeployed app0 \<lparr>Name = ''A'', Value = []\<rparr> [] =
     (Panics ''nil pointer dereference'', [Call_GetFunction ''web''])"
  by (simp add: ConfigGet_def GetFunction_def Let_def base_defs worldDeployed_def
      fnConfig0_def)

text \<open>
  With an environment, \<open>ConfigGet\<close> does what the claim says: the value when the
  variable is in the map, \<open>ErrNoSuchVariable\<close> when it is not or when the map is nil.
\<close>

lemma ConfigGet_with_environment:
  assumes "lambda_GetFunction env tr (App app) = Inr fnInfo"
    and "fc_Environment (Configuration fnInfo) = Some e"
  shows "ConfigGet env app cv tr =
     (case (case Variables e of None \<Rightarrow> None | Some m \<Rightarrow> m (Name cv)) of
        Some val \<Rightarrow> (Returns (cv\<lparr>Value := val\<rparr>, None), tr @ [Call_GetFunction (App app)])
      | None \<Rightarrow> (Returns (cv, Some ErrNoSuchVariable), tr @ [Call_GetFunction (App app)]))"
  using assms by (simp add: ConfigGet_def GetFunction_def Let_def split: option.splits)

lemma ConfigSet_success:
  assumes "ConfigSet env app cv tr = (Returns None, tr')"
  shows "\<exists>fnInfo m cfg ver.
      let cur = Configuration fnInfo;
          inp = \<lparr>ufc_FunctionName = App app,
                 ufc_Layers = map Arn (fc_Layers cur),
                 ufc_Handler = fc_Handler cur,
                 ufc_Environment = Some \<lparr>Variables = Some (m(Name cv \<mapsto> Value cv))\<rparr>,
                 ufc_Role = fc_Role cur,
                 ufc_Timeout = fc_Timeout cur,
                 ufc_MemorySize = fc_MemorySize cur,
                 ufc_Runtime = fc_Runtime cur\<rparr>
      in lambda_GetFunction env tr (App app) = Inr fnInfo \<and>
         (case fc_Environment cur of
            None \<Rightarrow> m = Map.empty
          | Some e \<Rightarrow> Variables e = Some m) \<and>
         tr' = tr @ [Call_GetFunction (App app), Call_UpdateFunctionConfiguration inp,
                     Call_PublishVersion None (App app)] \<and>
         lambda_UpdateFunctionConfiguration env (tr @ [Call_GetFunction (App app)]) inp =
           Inr cfg \<and>
         lambda_PublishVersion env
           (tr @ [Call_GetFunction (App app), Call_UpdateFunctionConfiguration inp])
           None (App app) = Inr ver"
proof (cases "lambda_GetFunction env tr (App app)")
  case (Inl e)
  with assms show ?thesis by (simp add: ConfigSet_def GetFunction_def)
next
  case (Inr fnInfo)
  show ?thesis
  proof (cases "fc_Environment (Configuration fnInfo)")
    case None
    with assms Inr show ?thesis
      by (simp add: ConfigSet_def GetFunction_def UpdateFunctionConfiguration_def
          PublishVersion_def Let_def split: sum.splits)
  next
    case (Some e)
    show ?thesis
    proof (cases "Variables e")
      case None
      with assms Inr Some show ?thesis
        by (simp add: ConfigSet_def GetFunction_def Let_def)
    next
      case vars: (Some m)
      with assms Inr Some show ?thesis
        by (simp add: ConfigSet_def GetFunction_def UpdateFunctionConfiguration_def
            PublishVersion_def Let_def split: sum.splits)
    qed
  qed
qed


lemma ConfigSet_twice:
  assumes one: "ConfigSet env app \<lparr>Name = a, Value = x\<rparr> tr = (Returns None, tr1)"
    and two: "ConfigSet env app \<lparr>Name = b, Value = y\<rparr> later = (Returns None, tr2)"
    and before: "lambda_GetFunction env tr (App app) = Inr fnInfo"
    and between: "lambda_GetFunction env later (App app) = Inr fnInfo'"
    and kept: "\<exists>inp c. tr1 = tr @ [Call_GetFunction (App app),
                                   Call_UpdateFunctionConfiguration inp, c] \<and>
                 stores (Configuration fnInfo') inp"
  shows "\<exists>m. (case fc_Environment (Configuration fnInfo) of
                None \<Rightarrow> m = Map.empty
              | Some e \<Rightarrow> Variables e = Some m) \<and>
             tr2 = later @
               [Call_GetFunction (App app),
                Call_UpdateFunctionConfiguration
                  \<lparr>ufc_FunctionName = App app,
                   ufc_Layers = map Arn (fc_Layers (Configuration fnInfo)),
                   ufc_Handler = fc_Handler (Configuration fnInfo),
                   ufc_Environment = Some \<lparr>Variables = Some (m(a \<mapsto> x, b \<mapsto> y))\<rparr>,
                   ufc_Role = fc_Role (Configuration fnInfo),
                   ufc_Timeout = fc_Timeout (Configuration fnInfo),
                   ufc_MemorySize = fc_MemorySize (Configuration fnInfo),
                   ufc_Runtime = fc_Runtime (Configuration fnInfo)\<rparr>,
                Call_PublishVersion None (App app)]"
proof -
  from ConfigSet_success [OF one] before
  obtain m where m: "case fc_Environment (Configuration fnInfo) of
                None \<Rightarrow> m = Map.empty
              | Some e \<Rightarrow> Variables e = Some m"
    and tr1: "tr1 = tr @
               [Call_GetFunction (App app),
                Call_UpdateFunctionConfiguration
                  \<lparr>ufc_FunctionName = App app,
                   ufc_Layers = map Arn (fc_Layers (Configuration fnInfo)),
                   ufc_Handler = fc_Handler (Configuration fnInfo),
                   ufc_Environment = Some \<lparr>Variables = Some (m(a \<mapsto> x))\<rparr>,
                   ufc_Role = fc_Role (Configuration fnInfo),
                   ufc_Timeout = fc_Timeout (Configuration fnInfo),
                   ufc_MemorySize = fc_MemorySize (Configuration fnInfo),
                   ufc_Runtime = fc_Runtime (Configuration fnInfo)\<rparr>,
                Call_PublishVersion None (App app)]"
    by (auto simp: Let_def)
  from kept tr1 have st: "stores (Configuration fnInfo')
                  \<lparr>ufc_FunctionName = App app,
                   ufc_Layers = map Arn (fc_Layers (Configuration fnInfo)),
                   ufc_Handler = fc_Handler (Configuration fnInfo),
                   ufc_Environment = Some \<lparr>Variables = Some (m(a \<mapsto> x))\<rparr>,
                   ufc_Role = fc_Role (Configuration fnInfo),
                   ufc_Timeout = fc_Timeout (Configuration fnInfo),
                   ufc_MemorySize = fc_MemorySize (Configuration fnInfo),
                   ufc_Runtime = fc_Runtime (Configuration fnInfo)\<rparr>"
    by auto
  from ConfigSet_success [OF two] between
  obtain m' where m': "case fc_Environment (Configuration fnInfo') of
                None \<Rightarrow> m' = Map.empty
              | Some e \<Rightarrow> Variables e = Some m'"
    and tr2: "tr2 = later @
               [Call_GetFunction (App app),
                Call_UpdateFunctionConfiguration
                  \<lparr>ufc_FunctionName = App app,
                   ufc_Layers = map Arn (fc_Layers (Configuration fnInfo')),
                   ufc_Handler = fc_Handler (Configuration fnInfo'),
                   ufc_Environment = Some \<lparr>Variables = Some (m'(b \<mapsto> y))\<rparr>,
                   ufc_Role = fc_Role (Configuration fnInfo'),
                   ufc_Timeout = fc_Timeout (Configuration fnInfo'),
                   ufc_MemorySize = fc_MemorySize (Configuration fnInfo'),
                   ufc_Runtime = fc_Runtime (Configuration fnInfo')\<rparr>,
                Call_PublishVersion None (App app)]"
    by (auto simp: Let_def)
  from st m' have "m' = m(a \<mapsto> x)"
    by (simp add: stores_def)
  with st tr2 m show ?thesis
    by (intro exI [of _ m]) (simp add: stores_def)
qed


text \<open>
  C5. A call of \<open>ConfigSet\<close> that returns nil has sent three requests: \<open>GetFunction\<close>;
  \<open>UpdateFunctionConfiguration\<close> with the fetched map of variables (the empty map when
  the configuration has no environment) updated at the variable's name, and with the
  layer references, handler, role, timeout, memory size and runtime of the fetched
  configuration; and then \<open>PublishVersion\<close>; the last two answered without error.
  For two such calls, setting \<open>a\<close> to \<open>x\<close> and then \<open>b\<close> to \<open>y\<close>, where the configuration
  fetched by the second call shows what the first call wrote: the second call writes
  the map fetched by the first call updated at \<open>a\<close> and at \<open>b\<close>, and the other fields as
  the first call fetched them.
\<close>

theorem ConfigSet_writes_merged_configuration:
  "(ConfigSet env app cv tr = (Returns None, tr') \<longrightarrow>
      (\<exists>fnInfo m cfg ver.
         let cur = Configuration fnInfo;
             inp = \<lparr>ufc_FunctionName = App app,
                    ufc_Layers = map Arn (fc_Layers cur),
                    ufc_Handler = fc_Handler cur,
                    ufc_Environment = Some \<lparr>Variables = Some (m(Name cv \<mapsto> Value cv))\<rparr>,
                    ufc_Role = fc_Role cur,
                    ufc_Timeout = fc_Timeout cur,
                    ufc_MemorySize = fc_MemorySize cur,
                    ufc_Runtime = fc_Runtime cur\<rparr>
         in lambda_GetFunction env tr (App app) = Inr fnInfo \<and>
            (case fc_Environment cur of
               None \<Rightarrow> m = Map.empty
             | Some e \<Rightarrow> Variables e = Some m) \<and>
            tr' = tr @ [Call_GetFunction (App app), Call_UpdateFunctionConfiguration inp,
                        Call_PublishVersion None (App app)] \<and>
            lambda_UpdateFunctionConfiguration env (tr @ [Call_GetFunction (App app)]) inp =
              Inr cfg \<and>
            lambda_PublishVersion env
              (tr @ [Call_GetFunction (App app), Call_UpdateFunctionConfiguration inp])
              None (App app) = Inr ver)) \<and>
   (ConfigSet env app \<lparr>Name = a, Value = x\<rparr> tr = (Returns None, trA) \<longrightarrow>
    ConfigSet env app \<lparr>Name = b, Value = y\<rparr> later = (Returns None, trB) \<longrightarrow>
    lambda_GetFunction env tr (App app) = Inr fnInfoA \<longrightarrow>
    lambda_GetFunction env later (App app) = Inr fnInfoB \<longrightarrow>
    (\<exists>inp c. trA = tr @ [Call_GetFunction (App app),
                          Call_UpdateFunctionConfiguration inp, c] \<and>
             stores (Configuration fnInfoB) inp) \<longrightarrow>
      (\<exists>m. (case fc_Environment (Configuration fnInfoA) of
               None \<Rightarrow> m = Map.empty
             | Some e \<Rightarrow> Variables e = Some m) \<and>
            trB = later @
              [Call_GetFunction (App app),
               Call_UpdateFunctionConfiguration
                 \<lparr>ufc_FunctionName = App app,
                  ufc_Layers = map Arn (fc_Layers (Configuration fnInfoA)),
                  ufc_Handler = fc_Handler (Configuration fnInfoA),
                  ufc_Environment = Some \<lparr>Variables = Some (m(a \<mapsto> x, b \<mapsto> y))\<rparr>,
                  ufc_Role = fc_Role (Configuration fnInfoA),
                  ufc_Timeout = fc_Timeout (Configuration fnInfoA),
                  ufc_MemorySize = fc_MemorySize (Configuration fnInfoA),
                  ufc_Runtime = fc_Runtime (Configuration fnInfoA)\<rparr>,
               Call_PublishVersion None (App app)]))"
  using ConfigSet_success [of env app cv tr tr']
    ConfigSet_twice [of env app a x tr trA b y later trB fnInfoA fnInfoB]
  by blast

theorem ConfigSet_writes_merged_configuration_witness:
  "ConfigSet worldConfig app0 \<lparr>Name = ''A'', Value = ''1''\<rparr> [] = (Returns None, traceSetA) \<and>
   (\<exists>m. (case fc_Environment fnConfig0 of None \<Rightarrow> m = Map.empty
                | Some e \<Rightarrow> Variables e = Some m) \<and>
      traceSetA = [Call_GetFunction ''web'',
         Call_UpdateFunctionConfiguration
           \<lparr>ufc_FunctionName = ''web'',
            ufc_Layers = map Arn (fc_Layers fnConfig0),
            ufc_Handler = fc_Handler fnConfig0,
            ufc_Environment = Some \<lparr>Variables = Some (m(''A'' \<mapsto> ''1''))\<rparr>,
            ufc_Role = fc_Role fnConfig0,
            ufc_Timeout = fc_Timeout fnConfig0,
            ufc_MemorySize = fc_MemorySize fnConfig0,
            ufc_Runtime = fc_Runtime fnConfig0\<rparr>,
         Call_PublishVersion None ''web'']) \<and>
   ConfigSet worldConfig app0 \<lparr>Name = ''B'', Value = ''2''\<rparr> traceSetA =
     (Returns None,
      traceSetA @
      [Call_GetFunction ''web'',
       Call_UpdateFunctionConfiguration
         \<lparr>ufc_FunctionName = ''web'',
          ufc_Layers = [''arn:web-pre:0'', ''arn:web-lib:1''],
          ufc_Handler = Some ''app.handler'',
          ufc_Environment = Some \<lparr>Variables = Some [''A'' \<mapsto> ''1'', ''B'' \<mapsto> ''2'']\<rparr>,
          ufc_Role = Some ''arn:role'',
          ufc_Timeout = Some 60,
          ufc_MemorySize = Some 256,
          ufc_Runtime = Some ''ruby2.5''\<rparr>,
       Call_PublishVersion None ''web''])"
proof -
  note defs = ConfigSet_def GetFunction_def UpdateFunctionConfiguration_def PublishVersion_def
    Let_def base_defs worldDeployed_def worldConfig_def fnConfig0_def traceSetA_def
  let ?inpB = "\<lparr>ufc_FunctionName = ''web'',
          ufc_Layers = [''arn:web-pre:0'', ''arn:web-lib:1''],
          ufc_Handler = Some ''app.handler'',
          ufc_Environment = Some \<lparr>Variables = Some [''A'' \<mapsto> ''1'', ''B'' \<mapsto> ''2'']\<rparr>,
          ufc_Role = Some ''arn:role'',
          ufc_Timeout = Some 60,
          ufc_MemorySize = Some 256,
          ufc_Runtime = Some ''ruby2.5''\<rparr>"
  let ?trB = "traceSetA @ [Call_GetFunction ''web'', Call_UpdateFunctionConfiguration ?inpB,
       Call_PublishVersion None ''web'']"
  have one: "ConfigSet worldConfig app0 \<lparr>Name = ''A'', Value = ''1''\<rparr> [] =
      (Returns None, traceSetA)"
    by (simp add: defs)
  have two: "ConfigSet worldConfig app0 \<lparr>Name = ''B'', Value = ''2''\<rparr> traceSetA =
      (Returns None, ?trB)"
    by (simp add: defs)
  have before: "lambda_GetFunction worldConfig [] (App app0) = Inr \<lparr>Configuration = fnConfig0\<rparr>"
    by (simp add: defs)
  have between: "lambda_GetFunction worldConfig traceSetA (App app0) =
      Inr \<lparr>Configuration = foldl storeUpdate fnConfig0 traceSetA\<rparr>"
    by (simp add: defs)
  have kept: "\<exists>inp c. traceSetA = [] @ [Call_GetFunction (App app0),
                          Call_UpdateFunctionConfiguration inp, c] \<and>
             stores (Configuration \<lparr>Configuration = foldl storeUpdate fnConfig0 traceSetA\<rparr>) inp"
    by (simp add: defs stores_def comp_def)
  note inst = ConfigSet_writes_merged_configuration [where env = worldConfig and app = app0
      and cv = "\<lparr>Name = ''A'', Value = ''1''\<rparr>" and tr = "[]" and tr' = traceSetA
      and a = "''A''" and x = "''1''" and trA = traceSetA and b = "''B''" and y = "''2''"
      and later = traceSetA and trB = ?trB and fnInfoA = "\<lparr>Configuration = fnConfig0\<rparr>"
      and fnInfoB = "\<lparr>Configuration = foldl storeUpdate fnConfig0 traceSetA\<rparr>"]
  from inst one before have p1: "\<exists>m. (case fc_Environment fnConfig0 of None \<Rightarrow> m = Map.empty
                | Some e \<Rightarrow> Variables e = Some m) \<and>
      traceSetA = [Call_GetFunction ''web'',
         Call_UpdateFunctionConfiguration
           \<lparr>ufc_FunctionName = ''web'',
            ufc_Layers = map Arn (fc_Layers fnConfig0),
            ufc_Handler = fc_Handler fnConfig0,
            ufc_Environment = Some \<lparr>Variables = Some (m(''A'' \<mapsto> ''1''))\<rparr>,
            ufc_Role = fc_Role fnConfig0,
            ufc_Timeout = fc_Timeout fnConfig0,
            ufc_MemorySize = fc_MemorySize fnConfig0,
            ufc_Runtime = fc_Runtime fnConfig0\<rparr>,
         Call_PublishVersion None ''web'']"
    by (auto simp: Let_def app0_def)
  from inst one two before between kept
  have p2: "\<exists>m. (case fc_Environment (Configuration \<lparr>Configuration = fnConfig0\<rparr>) of
               None \<Rightarrow> m = Map.empty
             | Some e \<Rightarrow> Variables e = Some m) \<and>
            ?trB = traceSetA @
              [Call_GetFunction (App app0),
               Call_UpdateFunctionConfiguration
                 \<lparr>ufc_FunctionName = App app0,
                  ufc_Layers = map Arn (fc_Layers (Configuration \<lparr>Configuration = fnConfig0\<rparr>)),
                  ufc_Handler = fc_Handler (Configuration \<lparr>Configuration = fnConfig0\<rparr>),
                  ufc_Environment = Some \<lparr>Variables = Some (m(''A'' \<mapsto> ''1'', ''B'' \<mapsto> ''2''))\<rparr>,
                  ufc_Role = fc_Role (Configuration \<lparr>Configuration = fnConfig0\<rparr>),
                  ufc_Timeout = fc_Timeout (Configuration \<lparr>Configuration = fnConfig0\<rparr>),
                  ufc_MemorySize = fc_MemorySize (Configuration \<lparr>Configuration = fnConfig0\<rparr>),
                  ufc_Runtime = fc_Runtime (Configuration \<lparr>Configuration = fnConfig0\<rparr>)\<rparr>,
               Call_PublishVersion None (App app0)]"
    by blast
  from one p1 two show ?thesis by blast
qed

section \<open>Reading logs: properties\<close>

lemmas log_defs = NextLogBatch.simps activeStream_def GetLogEvents_def toLogEvent_def
  time_Unix_def strings_TrimRight_def Let_def signed_divide_int_def signed_modulo_int_def

lemma activeStream_None: "activeStream c = None \<longleftrightarrow> pending c = []"
  by (simp add: activeStream_def pending_def split: option.splits list.splits)

lemma activeStream_Some:
  assumes "pending c = s # rest"
  shows "\<exists>c1. activeStream c = Some (s, c1) \<and> stream c1 = Some s \<and> streams c1 = rest \<and>
           group c1 = group c \<and> pendingRequests c1 = pendingRequests c \<and>
           lastToken c1 = (if stream c = None then None else lastToken c)"
proof (cases "stream c")
  case None
  with assms have "streams c = s # rest" by (simp add: pending_def)
  with None show ?thesis
    by (intro exI [of _ "c\<lparr>stream := Some s, streams := rest, lastToken := None\<rparr>"])
       (simp add: activeStream_def pendingRequests_def requestFor_def)
next
  case (Some s')
  with assms have "s' = s" "streams c = rest" by (simp_all add: pending_def)
  with Some show ?thesis
    by (intro exI [of _ c]) (simp add: activeStream_def)
qed

lemma NextLogBatch_done:
  "activeStream c = None \<Longrightarrow> NextLogBatch env c tr = (Inr [], c, tr)"
  by (subst NextLogBatch.simps) simp

lemma NextLogBatch_error:
  "activeStream c = Some (s, c1) \<Longrightarrow>
   logs_GetLogEvents env tr (requestFor c1 (lastToken c1) s) = Inl e \<Longrightarrow>
   NextLogBatch env c tr =
     (Inl e, c1, tr @ [Call_GetLogEvents (requestFor c1 (lastToken c1) s)])"
  by (subst NextLogBatch.simps) (simp add: GetLogEvents_def requestFor_def)

lemma NextLogBatch_events:
  "activeStream c = Some (s, c1) \<Longrightarrow>
   logs_GetLogEvents env tr (requestFor c1 (lastToken c1) s) = Inr out \<Longrightarrow>
   Events out \<noteq> [] \<Longrightarrow>
   NextLogBatch env c tr =
     (Inr (map (toLogEvent s) (Events out)), c1\<lparr>lastToken := NextForwardToken out\<rparr>,
      tr @ [Call_GetLogEvents (requestFor c1 (lastToken c1) s)])"
  by (subst NextLogBatch.simps) (simp add: GetLogEvents_def requestFor_def)

lemma NextLogBatch_skip:
  "activeStream c = Some (s, c1) \<Longrightarrow>
   logs_GetLogEvents env tr (requestFor c1 (lastToken c1) s) = Inr out \<Longrightarrow>
   Events out = [] \<Longrightarrow>
   NextLogBatch env c tr =
     NextLogBatch env (c1\<lparr>stream := None\<rparr>)
       (tr @ [Call_GetLogEvents (requestFor c1 (lastToken c1) s)])"
  by (subst NextLogBatch.simps) (simp add: GetLogEvents_def requestFor_def)

lemma pending_deactivated [simp]: "pending (c\<lparr>stream := None\<rparr>) = streams c"
  by (simp add: pending_def)

lemma pendingRequests_deactivated [simp]:
  "pendingRequests (c\<lparr>stream := None\<rparr>) = map (requestFor c None) (streams c)"
  by (simp add: pendingRequests_def requestFor_def)

text \<open>
  One call leaves a suffix of the pending partitions pending, and the events of a
  non-empty batch all carry the name of the first partition still pending.
\<close>

lemma NextLogBatch_shape:
  "NextLogBatch env c tr = (r, c', tr') \<Longrightarrow>
   \<exists>skipped. pending c = skipped @ pending c' \<and>
     (\<forall>evs. r = Inr evs \<longrightarrow> evs \<noteq> [] \<longrightarrow>
        (\<exists>s rest. pending c' = s # rest \<and>
           map Partition evs = replicate (length evs) (LogStreamName s)))"
proof (induction "pending c" arbitrary: c tr)
  case Nil
  then have "activeStream c = None" by (simp add: activeStream_None)
  from NextLogBatch_done [OF this, of env tr] Nil show ?case by auto
next
  case (Cons s rest)
  from activeStream_Some [OF Cons.hyps(2) [symmetric]]
  obtain c1 where c1: "activeStream c = Some (s, c1)" "stream c1 = Some s" "streams c1 = rest"
    by blast
  have p1: "pending c1 = s # rest" using c1 by (simp add: pending_def)
  let ?req = "requestFor c1 (lastToken c1) s"
  show ?case
  proof (cases "logs_GetLogEvents env tr ?req")
    case (Inl e)
    from NextLogBatch_error [OF c1(1) Inl] Cons.prems Cons.hyps(2) p1 show ?thesis
      by auto
  next
    case (Inr out)
    show ?thesis
    proof (cases "Events out = []")
      case True
      have "rest = pending (c1\<lparr>stream := None\<rparr>)" using c1 by simp
      from Cons.hyps(1) [OF this] NextLogBatch_skip [OF c1(1) Inr True] Cons.prems
      obtain skipped where sk: "pending (c1\<lparr>stream := None\<rparr>) = skipped @ pending c'"
        and ev: "\<forall>evs. r = Inr evs \<longrightarrow> evs \<noteq> [] \<longrightarrow>
        (\<exists>s rest. pending c' = s # rest \<and>
           map Partition evs = replicate (length evs) (LogStreamName s))"
        by auto
      from sk c1 Cons.hyps(2) have "pending c = (s # skipped) @ pending c'" by simp
      with ev show ?thesis by blast
    next
      case False
      from NextLogBatch_events [OF c1(1) Inr False] Cons.prems
      have r: "r = Inr (map (toLogEvent s) (Events out))"
        and c': "c' = c1\<lparr>lastToken := NextForwardToken out\<rparr>" by auto
      have pc': "pending c' = s # rest" using c' c1 by (simp add: pending_def)
      have lab: "map Partition (map (toLogEvent s) (Events out)) =
          replicate (length (map (toLogEvent s) (Events out))) (LogStreamName s)"
        by (simp add: toLogEvent_def Let_def comp_def map_replicate_const)
      from pc' Cons.hyps(2) have "pending c = [] @ pending c'" by simp
      with r pc' lab show ?thesis by blast
    qed
  qed
qed


lemma blocks_zero: "blocks (replicate n 0 @ ks) (pre @ xs) = blocks ks xs" if "length pre = n"
  using that
proof (induction pre arbitrary: n)
  case Nil
  then show ?case by simp
next
  case (Cons p pre)
  then obtain m where "n = Suc m" "length pre = m" by (cases n) auto
  with Cons.IH [of m] show ?case by (simp add: blocks_def)
qed

lemma blocks_skip:
  assumes "length ks = length xs" "ys = blocks ks xs"
  shows "\<exists>ks'. length ks' = length (pre @ xs) \<and> ys = blocks ks' (pre @ xs)"
  using assms blocks_zero [of pre "length pre" ks xs]
  by (intro exI [of _ "replicate (length pre) 0 @ ks"]) simp

lemma blocks_head:
  assumes "length ks = length (x # xs)" "ys = blocks ks (x # xs)"
  shows "\<exists>ks'. length ks' = length (x # xs) \<and> replicate n x @ ys = blocks ks' (x # xs)"
proof -
  from assms(1) obtain k ks0 where ks: "ks = k # ks0" by (cases ks) auto
  with assms show ?thesis
    by (intro exI [of _ "(n + k) # ks0"]) (simp add: blocks_def replicate_add)
qed

lemma blocks_none: "\<exists>ks. length ks = length xs \<and> [] = blocks ks xs"
  using blocks_zero [of xs "length xs" "[]" "[]"]
  by (intro exI [of _ "replicate (length xs) 0"]) (simp add: blocks_def)

lemma NextLogBatches_in_order:
  "NextLogBatches env gaps c tr = (rs, c', tr') \<Longrightarrow>
   \<exists>ks. length ks = length (pending c) \<and>
     map Partition (returnedEvents rs) = blocks ks (map LogStreamName (pending c))"
proof (induction gaps arbitrary: c tr rs c' tr')
  case Nil
  then have "rs = []" by simp
  with blocks_none [of "map LogStreamName (pending c)"] show ?case
    by (simp add: returnedEvents_def)
next
  case (Cons gap gaps)
  obtain r c1 tr1 where first: "NextLogBatch env c (tr @ gap) = (r, c1, tr1)"
    by (cases "NextLogBatch env c (tr @ gap)") auto
  obtain rs1 c2 tr2 where rest: "NextLogBatches env gaps c1 tr1 = (rs1, c2, tr2)"
    by (cases "NextLogBatches env gaps c1 tr1") auto
  from Cons.prems first rest have rs: "rs = r # rs1" by simp
  from Cons.IH [OF rest] obtain ks1 where ks1: "length ks1 = length (pending c1)"
    "map Partition (returnedEvents rs1) = blocks ks1 (map LogStreamName (pending c1))"
    by blast
  from NextLogBatch_shape [OF first] obtain skipped where
    sk: "pending c = skipped @ pending c1" and
    ev: "\<forall>evs. r = Inr evs \<longrightarrow> evs \<noteq> [] \<longrightarrow>
        (\<exists>s rest. pending c1 = s # rest \<and>
           map Partition evs = replicate (length evs) (LogStreamName s))"
    by blast
  let ?evs = "case r of Inl _ \<Rightarrow> [] | Inr evs \<Rightarrow> evs"
  have all: "map Partition (returnedEvents rs) =
      map Partition ?evs @ map Partition (returnedEvents rs1)"
    by (simp add: rs returnedEvents_def)
  have "\<exists>ks. length ks = length (map LogStreamName (pending c1)) \<and>
      map Partition ?evs @ map Partition (returnedEvents rs1) =
        blocks ks (map LogStreamName (pending c1))"
  proof (cases "?evs = []")
    case True
    with ks1 show ?thesis by auto
  next
    case False
    then obtain evs where r: "r = Inr evs" "evs \<noteq> []" by (cases r) auto
    with ev obtain s rest where p: "pending c1 = s # rest"
      "map Partition evs = replicate (length evs) (LogStreamName s)" by blast
    from blocks_head [of ks1 "LogStreamName s" "map LogStreamName rest"
        "map Partition (returnedEvents rs1)" "length evs"] ks1 p r
    show ?thesis by simp
  qed
  then obtain ks where ks: "length ks = length (map LogStreamName (pending c1))"
    "map Partition ?evs @ map Partition (returnedEvents rs1) =
        blocks ks (map LogStreamName (pending c1))" by blast
  from blocks_skip [OF ks, of "map LogStreamName skipped"] all sk show ?case
    by simp
qed

lemma NextLogBatch_end_iff_allEmpty:
  "fst (NextLogBatch env c tr) = Inr [] \<longleftrightarrow> allEmpty env (pendingRequests c) tr"
proof (induction "pending c" arbitrary: c tr)
  case Nil
  then have a: "activeStream c = None" by (simp add: activeStream_None)
  from Nil have "pendingRequests c = []"
    by (simp add: pending_def pendingRequests_def split: option.splits)
  with NextLogBatch_done [OF a, of env tr] show ?case by simp
next
  case (Cons s rest)
  from activeStream_Some [OF Cons.hyps(2) [symmetric]]
  obtain c1 where c1: "activeStream c = Some (s, c1)" "stream c1 = Some s" "streams c1 = rest"
    "pendingRequests c1 = pendingRequests c"
    by blast
  let ?req = "requestFor c1 (lastToken c1) s"
  have reqs: "pendingRequests c = ?req # map (requestFor c1 None) rest"
    using c1 by (simp add: pendingRequests_def)
  show ?case
  proof (cases "logs_GetLogEvents env tr ?req")
    case (Inl e)
    from NextLogBatch_error [OF c1(1) Inl] Inl reqs show ?thesis by simp
  next
    case (Inr out)
    show ?thesis
    proof (cases "Events out = []")
      case True
      have "rest = pending (c1\<lparr>stream := None\<rparr>)" using c1 by simp
      from Cons.hyps(1) [OF this] NextLogBatch_skip [OF c1(1) Inr True] Inr True reqs c1
      show ?thesis by simp
    next
      case False
      from NextLogBatch_events [OF c1(1) Inr False] Inr False reqs show ?thesis by simp
    qed
  qed
qed

lemma allEmpty_iff:
  "allEmpty env reqs tr \<longleftrightarrow>
     (\<forall>k<length reqs. \<exists>out.
        logs_GetLogEvents env (tr @ map Call_GetLogEvents (take k reqs)) (reqs ! k) = Inr out \<and>
        Events out = [])"
proof (induction reqs arbitrary: tr)
  case Nil
  then show ?case by simp
next
  case (Cons r reqs)
  show ?case
    by (simp add: Cons.IH All_less_Suc2 split: sum.splits)
qed

lemma NextLogBatch_end_state:
  "NextLogBatch env c tr = (Inr [], c', tr') \<Longrightarrow> stream c' = None \<and> streams c' = []"
proof (induction "pending c" arbitrary: c tr)
  case Nil
  then have a: "activeStream c = None" by (simp add: activeStream_None)
  from NextLogBatch_done [OF a, of env tr] Nil show ?case
    by (auto simp: pending_def split: option.splits)
next
  case (Cons s rest)
  from activeStream_Some [OF Cons.hyps(2) [symmetric]]
  obtain c1 where c1: "activeStream c = Some (s, c1)" "stream c1 = Some s" "streams c1 = rest"
    by blast
  let ?req = "requestFor c1 (lastToken c1) s"
  show ?case
  proof (cases "logs_GetLogEvents env tr ?req")
    case (Inl e)
    from NextLogBatch_error [OF c1(1) Inl] Cons.prems show ?thesis by simp
  next
    case (Inr out)
    show ?thesis
    proof (cases "Events out = []")
      case True
      have "rest = pending (c1\<lparr>stream := None\<rparr>)" using c1 by simp
      from Cons.hyps(1) [OF this] NextLogBatch_skip [OF c1(1) Inr True] Cons.prems
      show ?thesis by simp
    next
      case False
      from NextLogBatch_events [OF c1(1) Inr False] Cons.prems False show ?thesis by simp
    qed
  qed
qed

lemma NextLogBatch_exhausted:
  "stream c = None \<Longrightarrow> streams c = [] \<Longrightarrow> NextLogBatch env c tr = (Inr [], c, tr)"
  by (rule NextLogBatch_done) (simp add: activeStream_def)

lemma NextLogBatches_exhausted:
  "stream c = None \<Longrightarrow> streams c = [] \<Longrightarrow>
   NextLogBatches env gaps c tr = (replicate (length gaps) (Inr []), c, tr @ concat gaps)"
  by (induction gaps arbitrary: tr) (simp_all add: NextLogBatch_exhausted)


lemma smod_1000_bounds: "- 1000 < (ms :: int) smod 1000 \<and> ms smod 1000 < 1000"
proof -
  have "0 \<le> \<bar>ms\<bar> mod 1000" "\<bar>ms\<bar> mod 1000 < 1000" by simp_all
  then show ?thesis
    by (cases "ms < 0"; cases "ms = 0") (simp_all add: signed_modulo_int_def sgn_if)
qed

lemma sdiv_small: "\<bar>ns :: int\<bar> < 1000000000 \<Longrightarrow> ns sdiv 1000000000 = 0"
  by (simp add: signed_divide_int_def div_pos_pos_trivial)

lemma time_Unix_millis:
  "unixNano (time_Unix (ms sdiv 1000) ((ms smod 1000) * 1000000)) = ms * 1000000 \<and>
   0 \<le> nsec (time_Unix (ms sdiv 1000) ((ms smod 1000) * 1000000)) \<and>
   nsec (time_Unix (ms sdiv 1000) ((ms smod 1000) * 1000000)) < 1000000000"
proof -
  define q where "q = ms sdiv 1000"
  define r where "r = ms smod 1000"
  have ms: "ms = q * 1000 + r" by (simp add: q_def r_def sdiv_mult_smod_eq)
  have r: "- 1000 < r" "r < 1000" using smod_1000_bounds [of ms] by (simp_all add: r_def)
  then have ns: "\<bar>r * 1000000\<bar> < 1000000000" by (simp add: abs_if)
  from sdiv_small [OF ns] r show ?thesis
    unfolding q_def [symmetric] r_def [symmetric]
    by (simp add: time_Unix_def unixNano_def Let_def ms)
qed

lemma strings_TrimRight_spec:
  "\<exists>removed. s = strings_TrimRight s cutset @ removed \<and> set removed \<subseteq> set cutset \<and>
     (strings_TrimRight s cutset = [] \<or> last (strings_TrimRight s cutset) \<notin> set cutset)"
proof (intro exI [of _ "rev (takeWhile (\<lambda>c. c \<in> set cutset) (rev s))"] conjI)
  have "rev (dropWhile (\<lambda>c. c \<in> set cutset) (rev s)) @
        rev (takeWhile (\<lambda>c. c \<in> set cutset) (rev s)) =
      rev (takeWhile (\<lambda>c. c \<in> set cutset) (rev s) @ dropWhile (\<lambda>c. c \<in> set cutset) (rev s))"
    by (simp only: rev_append)
  also have "\<dots> = rev (rev s)" by (simp only: takeWhile_dropWhile_id)
  also have "\<dots> = s" by simp
  finally show "s = strings_TrimRight s cutset @ rev (takeWhile (\<lambda>c. c \<in> set cutset) (rev s))"
    by (simp add: strings_TrimRight_def)
  show "set (rev (takeWhile (\<lambda>c. c \<in> set cutset) (rev s))) \<subseteq> set cutset"
    by (auto dest: set_takeWhileD)
  show "strings_TrimRight s cutset = [] \<or> last (strings_TrimRight s cutset) \<notin> set cutset"
    using hd_dropWhile [of "\<lambda>c. c \<in> set cutset" "rev s"]
    by (auto simp add: strings_TrimRight_def last_rev)
qed


lemma NextLogBatch_source:
  "NextLogBatch env c tr = (Inr evs, c', tr') \<Longrightarrow> evs \<noteq> [] \<Longrightarrow>
   \<exists>s inp out h. stream c' = Some s \<and> tr' = h @ [Call_GetLogEvents inp] \<and>
     gle_LogStreamName inp = LogStreamName s \<and> logs_GetLogEvents env h inp = Inr out \<and>
     evs = map (toLogEvent s) (Events out)"
proof (induction "pending c" arbitrary: c tr)
  case Nil
  then have a: "activeStream c = None" by (simp add: activeStream_None)
  from NextLogBatch_done [OF a, of env tr] Nil show ?case by simp
next
  case (Cons s rest)
  from activeStream_Some [OF Cons.hyps(2) [symmetric]]
  obtain c1 where c1: "activeStream c = Some (s, c1)" "stream c1 = Some s" "streams c1 = rest"
    by blast
  let ?req = "requestFor c1 (lastToken c1) s"
  show ?case
  proof (cases "logs_GetLogEvents env tr ?req")
    case (Inl e)
    from NextLogBatch_error [OF c1(1) Inl] Cons.prems show ?thesis by simp
  next
    case (Inr out)
    show ?thesis
    proof (cases "Events out = []")
      case True
      have "rest = pending (c1\<lparr>stream := None\<rparr>)" using c1 by simp
      from Cons.hyps(1) [OF this _ Cons.prems(2)] NextLogBatch_skip [OF c1(1) Inr True]
        Cons.prems(1)
      show ?thesis by simp
    next
      case False
      from NextLogBatch_events [OF c1(1) Inr False] Cons.prems(1)
      have "evs = map (toLogEvent s) (Events out)"
        "c' = c1\<lparr>lastToken := NextForwardToken out\<rparr>"
        "tr' = tr @ [Call_GetLogEvents ?req]" by simp_all
      with c1 Inr show ?thesis
        by (intro exI [of _ s] exI [of _ ?req] exI [of _ out] exI [of _ tr])
           (simp add: requestFor_def)
    qed
  qed
qed

lemma NextLogBatch_skip_inactive:
  assumes "stream c = None" "streams c = s # rest"
    and "logs_GetLogEvents env tr (requestFor c None s) = Inr out" "Events out = []"
  shows "NextLogBatch env c tr =
         NextLogBatch env (c\<lparr>streams := rest, lastToken := None\<rparr>)
           (tr @ [Call_GetLogEvents (requestFor c None s)])"
proof -
  let ?c1 = "c\<lparr>stream := Some s, streams := rest, lastToken := None\<rparr>"
  have a: "activeStream c = Some (s, ?c1)" using assms(1,2) by (simp add: activeStream_def)
  have r: "requestFor ?c1 (lastToken ?c1) s = requestFor c None s" by (simp add: requestFor_def)
  have e: "?c1\<lparr>stream := None\<rparr> = c\<lparr>streams := rest, lastToken := None\<rparr>"
    using assms(1) by (cases c) simp
  from NextLogBatch_skip [OF a, of env tr out] assms(3,4) r e show ?thesis by simp
qed

lemma NextLogBatch_skip_active:
  assumes "stream c = Some s"
    and "logs_GetLogEvents env tr (requestFor c (lastToken c) s) = Inr out" "Events out = []"
  shows "NextLogBatch env c tr =
         NextLogBatch env (c\<lparr>stream := None\<rparr>)
           (tr @ [Call_GetLogEvents (requestFor c (lastToken c) s)])"
proof -
  have a: "activeStream c = Some (s, c)" using assms(1) by (simp add: activeStream_def)
  from NextLogBatch_skip [OF a assms(2,3)] show ?thesis .
qed

lemma Logs_viewer:
  assumes "Logs env app tr = (Inr c, tr')"
  shows "logs_DescribeLogStreams env tr (''/aws/lambda/'' @ App app) False ''LastEventTime'' =
           Inr (pending c) \<and>
         stream c = None \<and>
         tr' = tr @ [Call_DescribeLogStreams (''/aws/lambda/'' @ App app) False ''LastEventTime'']"
  using assms
  by (auto simp add: Logs_def DescribeLogStreams_def pending_def split: sum.splits)

text \<open>
  C6. A viewer made by \<open>Logs\<close> holds the partitions in the order in which the log source
  lists them by last event time, ascending, and none is active. For every sequence of
  calls of \<open>NextLogBatch\<close> on a viewer, the partitions of the returned events, in the
  order returned, are a block for each pending partition in the viewer's order (a
  block may be empty): all events of an earlier partition come before any event of a
  later one. A partition whose page is empty is passed over within the call, which
  goes on with the partitions after it. And the call returns the empty result
  exactly when every pending partition, asked in turn, answers with an empty page.
\<close>

theorem NextLogBatch_partitions_in_order:
  "(Logs env app tr = (Inr c, tr') \<longrightarrow>
      logs_DescribeLogStreams env tr (''/aws/lambda/'' @ App app) False ''LastEventTime'' =
        Inr (pending c) \<and>
      stream c = None \<and>
      tr' = tr @ [Call_DescribeLogStreams (''/aws/lambda/'' @ App app) False ''LastEventTime'']) \<and>
   (\<exists>ks. length ks = length (pending c) \<and>
      map Partition (returnedEvents (fst (NextLogBatches env gaps c tr))) =
        blocks ks (map LogStreamName (pending c))) \<and>
   (stream c = None \<longrightarrow> streams c = s # rest \<longrightarrow>
    logs_GetLogEvents env tr (requestFor c None s) = Inr out \<longrightarrow> Events out = [] \<longrightarrow>
      NextLogBatch env c tr =
        NextLogBatch env (c\<lparr>streams := rest, lastToken := None\<rparr>)
          (tr @ [Call_GetLogEvents (requestFor c None s)])) \<and>
   (stream c = Some s \<longrightarrow>
    logs_GetLogEvents env tr (requestFor c (lastToken c) s) = Inr out \<longrightarrow> Events out = [] \<longrightarrow>
      NextLogBatch env c tr =
        NextLogBatch env (c\<lparr>stream := None\<rparr>)
          (tr @ [Call_GetLogEvents (requestFor c (lastToken c) s)])) \<and>
   (fst (NextLogBatch env c tr) = Inr [] \<longleftrightarrow>
      (\<forall>k<length (pendingRequests c). \<exists>out.
         logs_GetLogEvents env (tr @ map Call_GetLogEvents (take k (pendingRequests c)))
           (pendingRequests c ! k) = Inr out \<and>
         Events out = []))"
proof (intro conjI impI)
  assume "Logs env app tr = (Inr c, tr')"
  from Logs_viewer [OF this]
  show "logs_DescribeLogStreams env tr (''/aws/lambda/'' @ App app) False ''LastEventTime'' =
        Inr (pending c)" "stream c = None"
    "tr' = tr @ [Call_DescribeLogStreams (''/aws/lambda/'' @ App app) False ''LastEventTime'']"
    by simp_all
next
  obtain rs c2 tr2 where "NextLogBatches env gaps c tr = (rs, c2, tr2)"
    by (cases "NextLogBatches env gaps c tr") auto
  from NextLogBatches_in_order [OF this] this
  show "\<exists>ks. length ks = length (pending c) \<and>
      map Partition (returnedEvents (fst (NextLogBatches env gaps c tr))) =
        blocks ks (map LogStreamName (pending c))"
    by simp
next
  assume "stream c = None" "streams c = s # rest"
    "logs_GetLogEvents env tr (requestFor c None s) = Inr out" "Events out = []"
  then show "NextLogBatch env c tr =
        NextLogBatch env (c\<lparr>streams := rest, lastToken := None\<rparr>)
          (tr @ [Call_GetLogEvents (requestFor c None s)])"
    by (rule NextLogBatch_skip_inactive)
next
  assume "stream c = Some s"
    "logs_GetLogEvents env tr (requestFor c (lastToken c) s) = Inr out" "Events out = []"
  then show "NextLogBatch env c tr =
        NextLogBatch env (c\<lparr>stream := None\<rparr>)
          (tr @ [Call_GetLogEvents (requestFor c (lastToken c) s)])"
    by (rule NextLogBatch_skip_active)
next
  show "fst (NextLogBatch env c tr) = Inr [] \<longleftrightarrow>
      (\<forall>k<length (pendingRequests c). \<exists>out.
         logs_GetLogEvents env (tr @ map Call_GetLogEvents (take k (pendingRequests c)))
           (pendingRequests c ! k) = Inr out \<and>
         Events out = [])"
    by (simp only: NextLogBatch_end_iff_allEmpty allEmpty_iff)
qed

theorem NextLogBatch_partitions_in_order_witness:
  "Logs worldLogs app0 [] =
     (Inr viewer0, [Call_DescribeLogStreams ''/aws/lambda/web'' False ''LastEventTime'']) \<and>
   logs_DescribeLogStreams worldLogs [] ''/aws/lambda/web'' False ''LastEventTime'' =
     Inr (pending viewer0) \<and>
   map Partition (returnedEvents (fst (NextLogBatches worldLogs [[], [], [], []] viewer0 []))) =
     [''s1'', ''s1'', ''s2''] \<and>
   (\<exists>ks. length ks = 3 \<and> [''s1'', ''s1'', ''s2''] = blocks ks [''s0'', ''s1'', ''s2'']) \<and>
   NextLogBatch worldLogs viewer0 [] =
     NextLogBatch worldLogs
       (viewer0\<lparr>streams := [\<lparr>LogStreamName = ''s1''\<rparr>, \<lparr>LogStreamName = ''s2''\<rparr>],
                lastToken := None\<rparr>)
       [Call_GetLogEvents (requestFor viewer0 None \<lparr>LogStreamName = ''s0''\<rparr>)] \<and>
   NextLogBatch worldLogs viewerFirst traceFirst =
     NextLogBatch worldLogs (viewerFirst\<lparr>stream := None\<rparr>)
       (traceFirst @
        [Call_GetLogEvents (requestFor viewerFirst (Some ''f1'') \<lparr>LogStreamName = ''s1''\<rparr>)]) \<and>
   fst (NextLogBatch worldLogs viewerEmpty []) = Inr [] \<and>
   fst (NextLogBatch worldLogs viewer0 []) \<noteq> Inr []"
proof -
  have logs: "Logs worldLogs app0 [] =
     (Inr viewer0, [Call_DescribeLogStreams ''/aws/lambda/web'' False ''LastEventTime''])"
    by (simp add: Logs_def DescribeLogStreams_def worldLogs_def base_defs viewer0_def)
  from NextLogBatch_partitions_in_order [where env = worldLogs and app = app0 and tr = "[]"
      and c = viewer0
      and tr' = "[Call_DescribeLogStreams ''/aws/lambda/web'' False ''LastEventTime'']",
      THEN conjunct1, rule_format, OF logs]
  have 1: "logs_DescribeLogStreams worldLogs [] ''/aws/lambda/web'' False ''LastEventTime'' =
     Inr (pending viewer0)"
    by (simp add: app0_def)
  have seq: "map Partition (returnedEvents (fst (NextLogBatches worldLogs [[], [], [], []] viewer0 []))) =
     [''s1'', ''s1'', ''s2'']"
    by (simp add: log_defs worldLogs_def base_defs viewer0_def returnedEvents_def)
  from NextLogBatch_partitions_in_order [where env = worldLogs and c = viewer0
      and gaps = "[[], [], [], []]" and tr = "[]", THEN conjunct2, THEN conjunct1]
  have 2: "\<exists>ks. length ks = 3 \<and> [''s1'', ''s1'', ''s2''] = blocks ks [''s0'', ''s1'', ''s2'']"
    unfolding seq by (simp add: pending_def viewer0_def numeral_3_eq_3)
  have 3: "NextLogBatch worldLogs viewer0 [] =
     NextLogBatch worldLogs
       (viewer0\<lparr>streams := [\<lparr>LogStreamName = ''s1''\<rparr>, \<lparr>LogStreamName = ''s2''\<rparr>],
                lastToken := None\<rparr>)
       ([] @ [Call_GetLogEvents (requestFor viewer0 None \<lparr>LogStreamName = ''s0''\<rparr>)])"
    by (rule NextLogBatch_partitions_in_order [where env = worldLogs and c = viewer0
          and tr = "[]" and s = "\<lparr>LogStreamName = ''s0''\<rparr>"
          and rest = "[\<lparr>LogStreamName = ''s1''\<rparr>, \<lparr>LogStreamName = ''s2''\<rparr>]"
          and out = "\<lparr>Events = [], NextForwardToken = None\<rparr>",
          THEN conjunct2, THEN conjunct2, THEN conjunct1, rule_format])
       (simp_all add: viewer0_def worldLogs_def base_defs requestFor_def)
  have 4: "NextLogBatch worldLogs viewerFirst traceFirst =
     NextLogBatch worldLogs (viewerFirst\<lparr>stream := None\<rparr>)
       (traceFirst @
        [Call_GetLogEvents (requestFor viewerFirst (lastToken viewerFirst)
           \<lparr>LogStreamName = ''s1''\<rparr>)])"
    by (rule NextLogBatch_partitions_in_order [where env = worldLogs and c = viewerFirst
          and tr = traceFirst and s = "\<lparr>LogStreamName = ''s1''\<rparr>"
          and out = "\<lparr>Events = [], NextForwardToken = Some ''f1''\<rparr>",
          THEN conjunct2, THEN conjunct2, THEN conjunct2, THEN conjunct1, rule_format])
       (simp_all add: viewerFirst_def worldLogs_def base_defs requestFor_def)
  have 5: "fst (NextLogBatch worldLogs viewerEmpty []) = Inr []"
    unfolding NextLogBatch_partitions_in_order [where env = worldLogs and c = viewerEmpty
          and tr = "[]", THEN conjunct2, THEN conjunct2, THEN conjunct2, THEN conjunct2]
    by (simp add: viewerEmpty_def pendingRequests_def requestFor_def worldLogs_def base_defs
        All_less_Suc2 numeral_2_eq_2)
  have 6: "fst (NextLogBatch worldLogs viewer0 []) \<noteq> Inr []"
    by (simp add: log_defs worldLogs_def base_defs viewer0_def)
  from logs 1 seq 2 3 4 5 6 show ?thesis by (simp add: viewerFirst_def)
qed


text \<open>
  C8. The claim: the message of a returned event is the raw message with all trailing
  whitespace and newline characters removed. The first raw event of partition \<open>s1\<close>
  has the message \<open>ready\<close>, a space and a line feed: the returned message keeps the
  space, which the removal of all trailing white space would take away.
\<close>

theorem NextLogBatch_keeps_trailing_space:
  "NextLogBatch worldLogs viewer0 [] = (Inr eventsFirst, viewerFirst, traceFirst) \<and>
   Message (eventsFirst ! 0) = ''ready '' \<and>
   trimTrailingWhitespace (''ready '' @ [CHR 0x0A]) = ''ready''"
  by (simp add: log_defs worldLogs_def base_defs viewer0_def eventsFirst_def viewerFirst_def traceFirst_def
      trimTrailingWhitespace_def isSpace_def)

text \<open>
  C8, as the code has it. The events of a non-empty batch are the raw events of the
  page last requested, in order, and the partition requested is the active partition
  of the viewer after the call. Each event carries the name of that partition; its
  time is the instant of the raw timestamp, a number of milliseconds since the epoch;
  and its message is the raw message without the line feeds and tabs at its end:
  what is removed consists of line feeds and tabs, and what is kept does not end with
  one.
\<close>

theorem NextLogBatch_events_translated:
  assumes "NextLogBatch env c tr = (Inr evs, c', tr')" "evs \<noteq> []"
  shows "\<exists>s inp out h. stream c' = Some s \<and> tr' = h @ [Call_GetLogEvents inp] \<and>
     gle_LogStreamName inp = LogStreamName s \<and> logs_GetLogEvents env h inp = Inr out \<and>
     length evs = length (Events out) \<and>
     (\<forall>i<length evs.
        Partition (evs ! i) = LogStreamName s \<and>
        unixNano (Timestamp (evs ! i)) = ole_Timestamp (Events out ! i) * 1000000 \<and>
        0 \<le> nsec (Timestamp (evs ! i)) \<and> nsec (Timestamp (evs ! i)) < 1000000000 \<and>
        (\<exists>removed. ole_Message (Events out ! i) = Message (evs ! i) @ removed \<and>
           set removed \<subseteq> {CHR 0x0A, CHR 0x09} \<and>
           (Message (evs ! i) = [] \<or> last (Message (evs ! i)) \<notin> {CHR 0x0A, CHR 0x09})))"
proof -
  from NextLogBatch_source [OF assms] obtain s inp out h where
    src: "stream c' = Some s" "tr' = h @ [Call_GetLogEvents inp]"
      "gle_LogStreamName inp = LogStreamName s" "logs_GetLogEvents env h inp = Inr out"
    and evs: "evs = map (toLogEvent s) (Events out)"
    by blast
  have "\<forall>i<length evs.
        Partition (evs ! i) = LogStreamName s \<and>
        unixNano (Timestamp (evs ! i)) = ole_Timestamp (Events out ! i) * 1000000 \<and>
        0 \<le> nsec (Timestamp (evs ! i)) \<and> nsec (Timestamp (evs ! i)) < 1000000000 \<and>
        (\<exists>removed. ole_Message (Events out ! i) = Message (evs ! i) @ removed \<and>
           set removed \<subseteq> {CHR 0x0A, CHR 0x09} \<and>
           (Message (evs ! i) = [] \<or> last (Message (evs ! i)) \<notin> {CHR 0x0A, CHR 0x09}))"
  proof (intro allI impI)
    fix i assume "i < length evs"
    then have i: "evs ! i = toLogEvent s (Events out ! i)" by (simp add: evs)
    from time_Unix_millis [of "ole_Timestamp (Events out ! i)"]
      strings_TrimRight_spec [of "ole_Message (Events out ! i)" "[CHR 0x0A, CHR 0x09]"]
    show "Partition (evs ! i) = LogStreamName s \<and>
        unixNano (Timestamp (evs ! i)) = ole_Timestamp (Events out ! i) * 1000000 \<and>
        0 \<le> nsec (Timestamp (evs ! i)) \<and> nsec (Timestamp (evs ! i)) < 1000000000 \<and>
        (\<exists>removed. ole_Message (Events out ! i) = Message (evs ! i) @ removed \<and>
           set removed \<subseteq> {CHR 0x0A, CHR 0x09} \<and>
           (Message (evs ! i) = [] \<or> last (Message (evs ! i)) \<notin> {CHR 0x0A, CHR 0x09}))"
      unfolding i by (simp add: toLogEvent_def Let_def)
  qed
  with src evs show ?thesis by (intro exI [of _ s] exI [of _ inp] exI [of _ out] exI [of _ h]) simp
qed


theorem NextLogBatch_events_translated_witness:
  "NextLogBatch worldLogs viewer0 [] = (Inr eventsFirst, viewerFirst, traceFirst) \<and>
   eventsFirst \<noteq> [] \<and>
   (\<exists>s inp out h. stream viewerFirst = Some s \<and> traceFirst = h @ [Call_GetLogEvents inp] \<and>
     gle_LogStreamName inp = LogStreamName s \<and> logs_GetLogEvents worldLogs h inp = Inr out \<and>
     length eventsFirst = length (Events out) \<and>
     (\<forall>i<length eventsFirst.
        Partition (eventsFirst ! i) = LogStreamName s \<and>
        unixNano (Timestamp (eventsFirst ! i)) = ole_Timestamp (Events out ! i) * 1000000 \<and>
        0 \<le> nsec (Timestamp (eventsFirst ! i)) \<and>
        nsec (Timestamp (eventsFirst ! i)) < 1000000000 \<and>
        (\<exists>removed. ole_Message (Events out ! i) = Message (eventsFirst ! i) @ removed \<and>
           set removed \<subseteq> {CHR 0x0A, CHR 0x09} \<and>
           (Message (eventsFirst ! i) = [] \<or>
            last (Message (eventsFirst ! i)) \<notin> {CHR 0x0A, CHR 0x09}))))"
proof -
  have run: "NextLogBatch worldLogs viewer0 [] = (Inr eventsFirst, viewerFirst, traceFirst)"
    by (simp add: log_defs worldLogs_def base_defs viewer0_def eventsFirst_def viewerFirst_def traceFirst_def)
  have ne: "eventsFirst \<noteq> []" by (simp add: eventsFirst_def)
  from NextLogBatch_events_translated [OF run ne] run ne show ?thesis by blast
qed

text \<open>
  C9. Once \<open>NextLogBatch\<close> has returned the empty result with no error, the viewer has
  no active partition and no partition left; every later call, at any later history,
  returns the empty result again, leaves the viewer as it is and sends no request: in
  a sequence of later calls the trace grows by the requests of other callers only.
\<close>

theorem NextLogBatch_end_is_absorbing:
  assumes "NextLogBatch env c tr = (Inr [], c', tr')"
  shows "stream c' = None \<and> streams c' = [] \<and>
     NextLogBatch env c' later = (Inr [], c', later) \<and>
     NextLogBatches env gaps c' later = (replicate (length gaps) (Inr []), c', later @ concat gaps)"
  using NextLogBatch_end_state [OF assms]
  by (simp add: NextLogBatch_exhausted NextLogBatches_exhausted)

theorem NextLogBatch_end_is_absorbing_witness:
  "NextLogBatch worldLogs viewerLast traceFirst =
     (Inr [], viewerLast\<lparr>stream := None\<rparr>,
      traceFirst @ [Call_GetLogEvents (requestFor viewerLast (Some ''f2'') \<lparr>LogStreamName = ''s2''\<rparr>)]) \<and>
   NextLogBatch worldLogs (viewerLast\<lparr>stream := None\<rparr>) [] =
     (Inr [], viewerLast\<lparr>stream := None\<rparr>, []) \<and>
   NextLogBatches worldLogs [[], [Call_GetFunction ''web''], []] (viewerLast\<lparr>stream := None\<rparr>) [] =
     ([Inr [], Inr [], Inr []], viewerLast\<lparr>stream := None\<rparr>, [Call_GetFunction ''web''])"
proof -
  have run: "NextLogBatch worldLogs viewerLast traceFirst =
     (Inr [], viewerLast\<lparr>stream := None\<rparr>,
      traceFirst @ [Call_GetLogEvents (requestFor viewerLast (Some ''f2'') \<lparr>LogStreamName = ''s2''\<rparr>)])"
    by (simp add: log_defs worldLogs_def base_defs viewerLast_def traceFirst_def requestFor_def)
  from NextLogBatch_end_is_absorbing [OF run, of "[]" "[[], [Call_GetFunction ''web''], []]"]
    NextLogBatch_end_is_absorbing [OF run, of "[]" "[]"] run
  show ?thesis by simp
qed

end
